theory Spec2Isabelle
  imports Main "HOL-Library.Word" "HOL-Library.List_Lexorder"
begin

unbundle bit_operations_syntax

section \<open>Common types\<close>

type_synonym byte = "8 word"
type_synonym bytes = "byte list"

text \<open>
  Faults of the C++ code that the model makes explicit: an unchecked
  \<open>std::vector::operator[]\<close> outside the vector (undefined behaviour in the source; the
  fault names the index),
  a dereference of a null or dangling pointer (undefined as well), the
  \<open>crypto::InvalidState\<close> exception thrown for a zero secret, the exception of
  \<open>bi::address::from_string\<close> on a string that is no address, and the \<open>BadCast\<close>
  exception of the RLP accessors.
\<close>

datatype fault = OutOfBounds nat | NullPointer | InvalidState | InvalidAddress | BadCast

definition and_then :: "fault + 'a \<Rightarrow> ('a \<Rightarrow> fault + 'b) \<Rightarrow> fault + 'b" where
  "and_then r f = (case r of Inl e \<Rightarrow> Inl e | Inr x \<Rightarrow> f x)"

section \<open>Framing header: \<open>Host::seal\<close>\<close>

text \<open>
  \<open>_b[i] = v\<close> on a \<open>bytes&\<close> (a \<open>std::vector<byte>\<close>): the write is
  defined only for \<open>i < _b.size()\<close>.
\<close>

definition store_byte :: "bytes \<Rightarrow> nat \<Rightarrow> byte \<Rightarrow> fault + bytes" where
  "store_byte b i v = (if i < length b then Inr (b[i := v]) else Inl (OutOfBounds i))"

text \<open>\<open>uint32_t len = (uint32_t)_b.size() - 8;\<close>\<close>

definition seal_len :: "bytes \<Rightarrow> 32 word" where
  "seal_len b = word_of_nat (length b) - 8"

text \<open>
  \<open>
  void Host::seal(bytes& _b)
  {
    _b[0] = 0x22; _b[1] = 0x40; _b[2] = 0x08; _b[3] = 0x91;
    uint32_t len = (uint32_t)_b.size() - 8;
    _b[4] = (len >> 24) & 0xff; _b[5] = (len >> 16) & 0xff;
    _b[6] = (len >> 8) & 0xff;  _b[7] = len & 0xff;
  }
  \<close>
\<close>

definition seal :: "bytes \<Rightarrow> fault + bytes" where
  "seal b0 =
     and_then (store_byte b0 0 0x22) (\<lambda>b1.
     and_then (store_byte b1 1 0x40) (\<lambda>b2.
     and_then (store_byte b2 2 0x08) (\<lambda>b3.
     and_then (store_byte b3 3 0x91) (\<lambda>b4.
       let len = seal_len b4 in
     and_then (store_byte b4 4 (ucast (drop_bit 24 len AND 0xff))) (\<lambda>b5.
     and_then (store_byte b5 5 (ucast (drop_bit 16 len AND 0xff))) (\<lambda>b6.
     and_then (store_byte b6 6 (ucast (drop_bit 8 len AND 0xff))) (\<lambda>b7.
     store_byte b7 7 (ucast (len AND 0xff)))))))))"

text \<open>Reading four bytes as a big-endian unsigned 32-bit number (the reader's side of the header).\<close>

definition be_u32 :: "byte \<Rightarrow> byte \<Rightarrow> byte \<Rightarrow> byte \<Rightarrow> nat" where
  "be_u32 a b c d = unat a * 2 ^ 24 + unat b * 2 ^ 16 + unat c * 2 ^ 8 + unat d"

text \<open>
  The eight assignments of \<open>seal\<close> in the order of the source, as pairs of index and
  value, and a sequence of assignments carried out one after the other.
\<close>

definition seal_writes :: "bytes \<Rightarrow> (nat \<times> byte) list" where
  "seal_writes b =
     (let len = seal_len b in
      [(0, 0x22), (1, 0x40), (2, 0x08), (3, 0x91),
       (4, ucast (drop_bit 24 len AND 0xff)), (5, ucast (drop_bit 16 len AND 0xff)),
       (6, ucast (drop_bit 8 len AND 0xff)), (7, ucast (len AND 0xff))])"

fun store_all :: "bytes \<Rightarrow> (nat \<times> byte) list \<Rightarrow> fault + bytes" where
  "store_all b [] = Inr b"
| "store_all b (w # ws) = and_then (store_byte b (fst w) (snd w)) (\<lambda>b'. store_all b' ws)"

text \<open>The eight bytes that \<open>seal\<close> writes, for a length field \<open>len\<close>.\<close>

definition seal_header :: "32 word \<Rightarrow> bytes" where
  "seal_header len = [0x22, 0x40, 0x08, 0x91,
     ucast (drop_bit 24 len AND 0xff), ucast (drop_bit 16 len AND 0xff),
     ucast (drop_bit 8 len AND 0xff), ucast (len AND 0xff)]"


section \<open>The data model of \<open>Host.h\<close>\<close>

text \<open>
  \<open>NodeId\<close> is \<open>h512\<close>, a fixed array of 64 bytes, and \<open>Secret\<close> is \<open>h256\<close>,
  32 bytes; both are kept as byte lists. \<open>FixedHash\<close> orders its values byte by byte
  from index 0, which is the lexicographic order on lists.
\<close>

type_synonym node_id = bytes
type_synonym secret = bytes

text \<open>\<open>bi::address\<close>: an IPv4 or an IPv6 address. \<open>bi::address()\<close> is the IPv4 address 0.0.0.0.\<close>

datatype ip_address = V4 "32 word" | V6 "128 word"

definition is_v4 :: "ip_address \<Rightarrow> bool" where
  "is_v4 a = (case a of V4 _ \<Rightarrow> True | V6 _ \<Rightarrow> False)"

definition is_unspecified :: "ip_address \<Rightarrow> bool" where
  "is_unspecified a = (case a of V4 w \<Rightarrow> w = 0 | V6 w \<Rightarrow> w = 0)"

definition address_default :: ip_address where
  "address_default = V4 0"

text \<open>\<open>bi::tcp::endpoint\<close>: an address and an \<open>unsigned short\<close> port.\<close>

record endpoint =
  ep_address :: ip_address
  ep_port :: "16 word"

definition endpoint_default :: endpoint where
  "endpoint_default = \<lparr>ep_address = address_default, ep_port = 0\<rparr>"

text \<open>
  The disconnect reasons, in the order of their integer codes (\<open>NoDisconnect = 0\<close>).
\<close>

datatype DisconnectReason =
    NoDisconnect | ClientQuit | DisconnectRequested | TCPError | BadProtocol | UselessPeer
  | TooManyPeers | DuplicatePeer | IncompatibleProtocol | NullIdentity | UnexpectedIdentity
  | LocalIdentity | PingTimeout | UserReason

text \<open>
  \<open>class Peer: public Node\<close>. The fields of \<open>Node\<close> that the host reads are \<open>id\<close> and
  \<open>endpoint.tcp\<close>. \<open>score\<close> and \<open>rating\<close> are C++ \<open>int\<close>, \<open>failedAttempts\<close> is
  \<open>unsigned\<close>; the two time points are \<open>system_clock\<close> ticks since the epoch.
\<close>

record peer =
  peer_id :: node_id
  endpoint_tcp :: endpoint
  score :: "32 word"
  rating :: "32 word"
  lastConnected :: int
  lastAttempted :: int
  failedAttempts :: "32 word"
  lastDisconnect :: DisconnectReason

text \<open>\<open>make_shared<Peer>()\<close>: the default member initialisers of \<open>Peer\<close> and \<open>Node\<close>.\<close>

definition peer_default :: peer where
  "peer_default = \<lparr>peer_id = replicate 64 0, endpoint_tcp = endpoint_default, score = 0, rating = 0,
     lastConnected = 0, lastAttempted = 0, failedAttempts = 0, lastDisconnect = NoDisconnect\<rparr>"

text \<open>
  What the host reads of a \<open>Session\<close> (a class declared outside these sources):
  \<open>m_info\<close>, whether \<open>m_socket\<close> is open, and \<open>m_lastReceived\<close> in \<open>steady_clock\<close> ticks.
\<close>

record PeerSessionInfo =
  info_id :: node_id
  info_clientVersion :: string

record session =
  m_info :: PeerSessionInfo
  socket_is_open :: bool
  m_lastReceived :: int

text \<open>
  Objects held through \<open>shared_ptr\<close>, \<open>weak_ptr\<close> or raw pointers are addressed in a store:
  a \<open>Peer*\<close> and a \<open>Session*\<close> are addresses. A \<open>weak_ptr<Session>\<close> locks to the
  session at its address while that session is alive, and to nothing afterwards.
\<close>

type_synonym peer_ptr = nat
type_synonym session_ptr = nat

text \<open>The null \<open>shared_ptr<Peer>\<close>; nothing is ever stored at address 0.\<close>

definition null_peer :: peer_ptr where
  "null_peer = 0"

text \<open>
  Calls that leave the host: to a session, to the socket layer, and (for the record of who
  asked) the entry into \<open>Host::connect\<close> itself. The host appends them to \<open>calls\<close>.
\<close>

datatype call =
    Connect peer_ptr
  | AsyncConnect peer_ptr endpoint
  | SessionStart peer_ptr
  | Ping session_ptr
  | Disconnect session_ptr DisconnectReason

text \<open>\<open>KeyPair\<close>: the secret and the public key derived from it.\<close>

record KeyPair =
  kp_secret :: secret
  kp_pub :: node_id

text \<open>
  The members of \<open>Host\<close> that the modelled functions touch. \<open>m_localNetworking\<close> is
  \<open>m_netPrefs.localNetworking\<close>. \<open>std::map\<close> and \<open>std::set\<close> are lists in
  iteration order. \<open>m_nodeTable\<close> is a \<open>shared_ptr<NodeTable>\<close>: absent
  when null, otherwise the table's content, node id to TCP endpoint. \<open>peer_store\<close> and
  \<open>session_store\<close> hold the objects behind the pointers, \<open>next_peer\<close> is the
  allocator's next free address, and \<open>pending_connects\<close> lists the \<open>async_connect\<close>
  operations handed to the I/O service whose handlers have not run yet.
\<close>

record host =
  m_run :: bool
  m_localNetworking :: bool
  m_ifAddresses :: "ip_address list"
  m_listenPort :: int
  m_pendingNodeConns :: "peer_ptr set"
  m_tcpPublic :: endpoint
  m_alias :: KeyPair
  m_nodeTable :: "(node_id \<rightharpoonup> endpoint) option"
  m_peers :: "(node_id \<times> peer_ptr) list"
  m_sessions :: "(node_id \<times> session_ptr) list"
  m_idealPeerCount :: "32 word"
  m_peerAddresses :: "ip_address list"
  m_lastPing :: int
  peer_store :: "peer_ptr \<rightharpoonup> peer"
  session_store :: "session_ptr \<rightharpoonup> session"
  next_peer :: peer_ptr
  pending_connects :: "peer_ptr list"
  calls :: "call list"


text \<open>
  The state a constructed \<open>Host\<close> starts in (the member initialisers of \<open>Host.h\<close> and
  the constructor's initialiser list), given the interface addresses, the
  \<open>localNetworking\<close> preference and the key pair of \<open>getHostIdentifier\<close>.
  \<open>time_point<steady_clock>::min()\<close> is the least 64-bit tick count.
\<close>

definition Host :: "ip_address list \<Rightarrow> bool \<Rightarrow> KeyPair \<Rightarrow> host" where
  "Host ifs localNetworking alias =
     \<lparr>m_run = False, m_localNetworking = localNetworking, m_ifAddresses = ifs, m_listenPort = - 1,
      m_pendingNodeConns = {}, m_tcpPublic = endpoint_default, m_alias = alias, m_nodeTable = None,
      m_peers = [], m_sessions = [], m_idealPeerCount = 5, m_peerAddresses = [],
      m_lastPing = - (2 ^ 63), peer_store = Map.empty, session_store = Map.empty,
      next_peer = 1, pending_connects = [], calls = []\<rparr>"

section \<open>\<open>std::map\<close> operations on lists in key order\<close>

text \<open>\<open>m[k] = v\<close>: replace the value at \<open>k\<close>, or insert the pair at its place in key order.\<close>

fun map_assign :: "('k::linorder \<times> 'v) list \<Rightarrow> 'k \<Rightarrow> 'v \<Rightarrow> ('k \<times> 'v) list" where
  "map_assign [] k v = [(k, v)]"
| "map_assign ((k', v') # m) k v =
     (if k < k' then (k, v) # (k', v') # m
      else if k = k' then (k, v) # m
      else (k', v') # map_assign m k v)"

text \<open>
  Reading \<open>m[k]\<close> where the mapped type is \<open>shared_ptr<Peer>\<close>: a missing key is
  inserted with the null pointer, which is what the read returns.
\<close>

definition map_index :: "(node_id \<times> peer_ptr) list \<Rightarrow> node_id \<Rightarrow> (node_id \<times> peer_ptr) list \<times> peer_ptr" where
  "map_index m k = (case map_of m k of Some v \<Rightarrow> (m, v) | None \<Rightarrow> (map_assign m k null_peer, null_peer))"

definition map_erase :: "('k \<times> 'v) list \<Rightarrow> 'k \<Rightarrow> ('k \<times> 'v) list" where
  "map_erase m k = filter (\<lambda>e. fst e \<noteq> k) m"

section \<open>Status queries: \<open>isStarted\<close>, \<open>peerCount\<close>, \<open>havePeerSession\<close>, \<open>peers\<close>\<close>

definition isStarted :: "host \<Rightarrow> bool" where
  "isStarted h = m_run h"

text \<open>\<open>size_t peerCount() const { RecursiveGuard l(x_sessions); return m_peers.size(); }\<close>\<close>

definition peerCount :: "host \<Rightarrow> nat" where
  "peerCount h = length (m_peers h)"

text \<open>
  \<open>bool havePeerSession(NodeId _id)
     { return m_sessions.count(_id) ? !!m_sessions[_id].lock() : false; }\<close>
\<close>

definition havePeerSession :: "host \<Rightarrow> node_id \<Rightarrow> bool" where
  "havePeerSession h i =
     (case map_of (m_sessions h) i of None \<Rightarrow> False | Some w \<Rightarrow> session_store h w \<noteq> None)"

text \<open>
  The loop of \<open>Host::peers\<close>:
  \<open>for (auto& i: m_sessions) if (auto j = i.second.lock()) if (j->m_socket.is_open())
     ret.push_back(j->m_info);\<close>
\<close>

fun peers_loop :: "host \<Rightarrow> (node_id \<times> session_ptr) list \<Rightarrow> PeerSessionInfo list \<Rightarrow> PeerSessionInfo list" where
  "peers_loop h [] ret = ret"
| "peers_loop h (i # rest) ret =
     peers_loop h rest
       (case session_store h (snd i) of
          None \<Rightarrow> ret
        | Some j \<Rightarrow> if socket_is_open j then ret @ [m_info j] else ret)"

text \<open>\<open>if (!m_run) return PeerSessionInfos();\<close> and then the loop.\<close>

definition peers :: "host \<Rightarrow> PeerSessionInfo list" where
  "peers h = (if \<not> m_run h then [] else peers_loop h (m_sessions h) [])"

section \<open>Keep-alive: \<open>keepAlivePeers\<close> and \<open>disconnectLatePeers\<close>\<close>

text \<open>
  \<open>steady_clock\<close> counts nanoseconds. \<open>c_keepAliveInterval\<close> is
  \<open>std::chrono::seconds(30)\<close> and \<open>c_keepAliveTimeOut\<close> is
  \<open>std::chrono::milliseconds(1000)\<close>; both are converted to ticks where they meet a
  time point.
\<close>

definition c_keepAliveInterval :: int where
  "c_keepAliveInterval = 30 * 1000000000"

definition c_keepAliveTimeOut :: int where
  "c_keepAliveTimeOut = 1000 * 1000000"

text \<open>\<open>for (auto p: m_sessions) if (auto pp = p.second.lock()) pp->ping();\<close>\<close>

fun ping_loop :: "host \<Rightarrow> (node_id \<times> session_ptr) list \<Rightarrow> host" where
  "ping_loop h [] = h"
| "ping_loop h (p # rest) =
     ping_loop (case session_store h (snd p) of
                  None \<Rightarrow> h
                | Some pp \<Rightarrow> h\<lparr>calls := calls h @ [Ping (snd p)]\<rparr>) rest"

text \<open>
  \<open>keepAlivePeers\<close> reads the clock twice: \<open>now1\<close> in the test, \<open>now2\<close> for the new
  \<open>m_lastPing\<close>.
\<close>

definition keepAlivePeers :: "int \<Rightarrow> int \<Rightarrow> host \<Rightarrow> host" where
  "keepAlivePeers now1 now2 h =
     (if now1 - c_keepAliveInterval < m_lastPing h then h
      else (ping_loop h (m_sessions h))\<lparr>m_lastPing := now2\<rparr>)"

text \<open>
  The loop of \<open>disconnectLatePeers\<close>:
  \<open>for (auto p: m_sessions) if (auto pp = p.second.lock())
     if (now - c_keepAliveTimeOut > m_lastPing && pp->m_lastReceived < m_lastPing)
       pp->disconnect(PingTimeout);\<close>
\<close>

fun disconnect_loop :: "int \<Rightarrow> host \<Rightarrow> (node_id \<times> session_ptr) list \<Rightarrow> host" where
  "disconnect_loop now h [] = h"
| "disconnect_loop now h (p # rest) =
     disconnect_loop now
       (case session_store h (snd p) of
          None \<Rightarrow> h
        | Some pp \<Rightarrow>
            if now - c_keepAliveTimeOut > m_lastPing h \<and> m_lastReceived pp < m_lastPing h
            then h\<lparr>calls := calls h @ [Disconnect (snd p) PingTimeout]\<rparr>
            else h) rest"

text \<open>\<open>if (now - c_keepAliveTimeOut < m_lastPing) return;\<close> and then the loop.\<close>

definition disconnectLatePeers :: "int \<Rightarrow> host \<Rightarrow> host" where
  "disconnectLatePeers now h =
     (if now - c_keepAliveTimeOut < m_lastPing h then h
      else disconnect_loop now h (m_sessions h))"

section \<open>The dialer: \<open>Host::connect\<close> and its completion handler\<close>

text \<open>
  \<open>connect\<close> returns early when the host is not running, when the peer has a live
  session, when the node table does not know the peer, and when the \<open>Peer*\<close> is already
  in \<open>m_pendingNodeConns\<close>; otherwise it inserts the pointer and hands an
  \<open>async_connect\<close> to the I/O service.
\<close>

definition connect :: "host \<Rightarrow> peer_ptr \<Rightarrow> fault + host" where
  "connect h0 p =
     (let h = h0\<lparr>calls := calls h0 @ [Connect p]\<rparr> in
      if \<not> m_run h then Inr h
      else case peer_store h p of
        None \<Rightarrow> Inl NullPointer
      | Some pr \<Rightarrow>
          if havePeerSession h (peer_id pr) then Inr h
          else case m_nodeTable h of
            None \<Rightarrow> Inl NullPointer
          | Some nt \<Rightarrow>
              if nt (peer_id pr) = None then Inr h
              else if p \<in> m_pendingNodeConns h then Inr h
              else Inr (h\<lparr>m_pendingNodeConns := insert p (m_pendingNodeConns h),
                          calls := calls h @ [AsyncConnect p (endpoint_tcp pr)],
                          pending_connects := pending_connects h @ [p]\<rparr>))"

text \<open>How a handler ends: it returns, or an exception leaves it.\<close>

datatype handler_exit = Returned | Threw

text \<open>
  The handler given to \<open>async_connect\<close>, run by the I/O service when the connect of
  peer \<open>p\<close> completes with error code \<open>ec\<close> (\<open>True\<close>: an error) at system time \<open>now\<close>:
  \<open>if (ec) { _p->lastDisconnect = TCPError; _p->lastAttempted = now; }
   else { _p->lastConnected = now; auto ps = make_shared<Session>(...); ps->start(); }
   delete s; Guard l(x_pendingNodeConns); m_pendingNodeConns.erase(nptr);\<close>
  \<open>Session\<close> is a class outside these sources. Whether its construction or its start
  throws is the parameter \<open>session_throws\<close>; the handler has no \<open>try\<close> block, so the
  exception leaves it before \<open>delete s\<close> and before the erase. Either way the I/O service
  is done with the connect.
\<close>

definition connect_handler ::
  "host \<Rightarrow> peer_ptr \<Rightarrow> bool \<Rightarrow> int \<Rightarrow> bool \<Rightarrow> fault + handler_exit \<times> host" where
  "connect_handler h p ec now session_throws =
     (case peer_store h p of
        None \<Rightarrow> Inl NullPointer
      | Some pr \<Rightarrow>
          if ec
          then let h1 = h\<lparr>peer_store := (peer_store h)(p \<mapsto> pr\<lparr>lastAttempted := now, lastDisconnect := TCPError\<rparr>)\<rparr>
               in Inr (Returned, h1\<lparr>m_pendingNodeConns := m_pendingNodeConns h1 - {p},
                                     pending_connects := remove1 p (pending_connects h1)\<rparr>)
          else let h1 = h\<lparr>peer_store := (peer_store h)(p \<mapsto> pr\<lparr>lastConnected := now\<rparr>)\<rparr>
               in if session_throws
                  then Inr (Threw, h1\<lparr>pending_connects := remove1 p (pending_connects h1)\<rparr>)
                  else let h2 = h1\<lparr>calls := calls h1 @ [SessionStart p]\<rparr>
                       in Inr (Returned, h2\<lparr>m_pendingNodeConns := m_pendingNodeConns h2 - {p},
                                             pending_connects := remove1 p (pending_connects h2)\<rparr>))"

text \<open>
  The states a host can be in, as far as the dialer is concerned: a constructed host has
  nothing pending; \<open>connect\<close> may be called for any peer; the I/O service runs the handler of
  a connect it holds; and every other member function leaves \<open>m_pendingNodeConns\<close> (used
  only by \<open>connect\<close>) and the I/O service's connects as they are. The handler holds a
  \<open>shared_ptr\<close> to its peer, so the peer of a connect that the I/O service holds stays
  alive whatever else happens.
\<close>

inductive reachable :: "host \<Rightarrow> bool" where
  constructed: "m_pendingNodeConns h = {} \<Longrightarrow> pending_connects h = [] \<Longrightarrow> reachable h"
| connect_called: "reachable h \<Longrightarrow> connect h p = Inr h' \<Longrightarrow> reachable h'"
| connect_completed:
    "reachable h \<Longrightarrow> p \<in> set (pending_connects h) \<Longrightarrow>
     connect_handler h p ec now session_throws = Inr (x, h') \<Longrightarrow> reachable h'"
| other_activity:
    "reachable h \<Longrightarrow> m_pendingNodeConns h' = m_pendingNodeConns h \<Longrightarrow>
     pending_connects h' = pending_connects h \<Longrightarrow>
     list_all (\<lambda>p. peer_store h' p \<noteq> None) (pending_connects h) \<Longrightarrow> reachable h'"

section \<open>The discovery adapter: \<open>Host::onNodeTableEvent\<close>\<close>

datatype NodeTableEventType = NodeEntryAdded | NodeEntryRemoved

text \<open>
  On \<open>NodeEntryAdded\<close>, for a node that the table knows: \<open>auto p = m_peers[_n]\<close>, a new
  \<open>Peer\<close> with \<open>id = _n\<close> when that is null, \<open>p->endpoint.tcp = n.endpoint.tcp\<close>, and
  \<open>if (peerCount() < m_idealPeerCount) connect(p);\<close>. On \<open>NodeEntryRemoved\<close>:
  \<open>m_peers.erase(_n)\<close>.
\<close>

definition onNodeTableEvent :: "host \<Rightarrow> node_id \<Rightarrow> NodeTableEventType \<Rightarrow> fault + host" where
  "onNodeTableEvent h n e =
     (case e of
        NodeEntryAdded \<Rightarrow>
          (case m_nodeTable h of
             None \<Rightarrow> Inl NullPointer
           | Some nt \<Rightarrow>
               (case nt n of
                  None \<Rightarrow> Inr h
                | Some n_tcp \<Rightarrow>
                    let (m1, p0) = map_index (m_peers h) n;
                        h1 = h\<lparr>m_peers := m1\<rparr>;
                        p = (if p0 = null_peer then next_peer h1 else p0);
                        h2 = (if p0 = null_peer
                              then h1\<lparr>m_peers := map_assign m1 n p,
                                      peer_store := (peer_store h1)(p \<mapsto> peer_default\<lparr>peer_id := n\<rparr>),
                                      next_peer := Suc p\<rparr>
                              else h1)
                    in (case peer_store h2 p of
                          None \<Rightarrow> Inl NullPointer
                        | Some pr \<Rightarrow>
                            let h3 = h2\<lparr>peer_store := (peer_store h2)(p \<mapsto> pr\<lparr>endpoint_tcp := n_tcp\<rparr>)\<rparr>
                            in if peerCount h3 < unat (m_idealPeerCount h3) then connect h3 p
                               else Inr h3)))
      | NodeEntryRemoved \<Rightarrow> Inr (h\<lparr>m_peers := map_erase (m_peers h) n\<rparr>))"


section \<open>The keep-alive steps of \<open>Host::run\<close>\<close>

text \<open>
  A scheduler tick of a running host ends with \<open>keepAlivePeers(); disconnectLatePeers();\<close>.
  The three clock readings of the two calls are \<open>now1\<close>, \<open>now2\<close> and \<open>now3\<close>.
\<close>

definition run_keepalive :: "int \<Rightarrow> int \<Rightarrow> int \<Rightarrow> host \<Rightarrow> host" where
  "run_keepalive now1 now2 now3 h = disconnectLatePeers now3 (keepAlivePeers now1 now2 h)"

section \<open>Example states\<close>

text \<open>
  Three remote nodes, the endpoint 52.1.2.3:30303 of the first, a session with it, and the
  host's key pair.
\<close>

definition node_A :: node_id where
  "node_A = replicate 64 0xA1"

definition node_B :: node_id where
  "node_B = replicate 64 0xB2"

definition node_C :: node_id where
  "node_C = replicate 64 0xC3"

definition ep_A :: endpoint where
  "ep_A = \<lparr>ep_address = V4 0x34010203, ep_port = 30303\<rparr>"

definition key_H :: KeyPair where
  "key_H = \<lparr>kp_secret = replicate 32 7, kp_pub = replicate 64 0x48\<rparr>"

definition session_A :: session where
  "session_A = \<lparr>m_info = \<lparr>info_id = node_A, info_clientVersion = ''peer''\<rparr>,
                 socket_is_open = True, m_lastReceived = 4000000000\<rparr>"

text \<open>A host that was never started, holding a live session with an open socket.\<close>

definition host_stopped :: host where
  "host_stopped = (Host [] False key_H)\<lparr>m_sessions := [(node_A, 7)], session_store := [7 \<mapsto> session_A]\<rparr>"

text \<open>
  A running host that sent its last ping at 5 s of the steady clock to a session which
  last received something at 4 s.
\<close>

definition host_late :: host where
  "host_late = (Host [] False key_H)\<lparr>m_run := True, m_sessions := [(node_A, 7)],
     session_store := [7 \<mapsto> session_A], m_lastPing := 5000000000\<rparr>"

text \<open>
  A running host with no peer and no session that wants one peer, while its node table knows
  \<open>node_A\<close>; the same host after the \<open>NodeEntryAdded\<close> event for \<open>node_A\<close>; and after
  a \<open>connect\<close> to that peer was handed to the I/O service.
\<close>

definition host_discovering :: host where
  "host_discovering = (Host [] False key_H)\<lparr>m_run := True, m_listenPort := 30303,
     m_nodeTable := Some [node_A \<mapsto> ep_A], m_idealPeerCount := 1\<rparr>"

definition host_discovered :: host where
  "host_discovered = host_discovering\<lparr>m_peers := [(node_A, 1)],
     peer_store := [1 \<mapsto> peer_default\<lparr>peer_id := node_A, endpoint_tcp := ep_A\<rparr>],
     next_peer := 2\<rparr>"

definition host_dialing :: host where
  "host_dialing = host_discovered\<lparr>m_pendingNodeConns := {1},
     calls := [Connect 1, AsyncConnect 1 ep_A], pending_connects := [1]\<rparr>"

text \<open>
  The host after that connect was refused at system time 99, and the host after that connect
  succeeded at system time 99 and the construction or the start of the session threw.
\<close>

definition host_refused :: host where
  "host_refused = host_discovered\<lparr>
     peer_store := [1 \<mapsto> peer_default\<lparr>peer_id := node_A, endpoint_tcp := ep_A,
                                        lastAttempted := 99, lastDisconnect := TCPError\<rparr>],
     calls := [Connect 1, AsyncConnect 1 ep_A]\<rparr>"

definition host_escaped :: host where
  "host_escaped = host_discovered\<lparr>
     m_pendingNodeConns := {1},
     peer_store := [1 \<mapsto> peer_default\<lparr>peer_id := node_A, endpoint_tcp := ep_A,
                                        lastConnected := 99\<rparr>],
     calls := [Connect 1, AsyncConnect 1 ep_A]\<rparr>"


section \<open>The endpoint resolver: \<open>Host::determinePublic\<close>\<close>

text \<open>
  \<open>std::set<bi::address>\<close> iterates in the order of \<open>bi::address\<close>: every IPv4 address
  before every IPv6 address, and addresses of one family by their numeric value.
\<close>

definition address_less :: "ip_address \<Rightarrow> ip_address \<Rightarrow> bool" where
  "address_less a b =
     (case a of
        V4 x \<Rightarrow> (case b of V4 y \<Rightarrow> x < y | V6 _ \<Rightarrow> True)
      | V6 x \<Rightarrow> (case b of V4 _ \<Rightarrow> False | V6 y \<Rightarrow> x < y))"

text \<open>\<open>m_peerAddresses.insert(addr)\<close>.\<close>

fun set_insert :: "ip_address list \<Rightarrow> ip_address \<Rightarrow> ip_address list" where
  "set_insert [] a = [a]"
| "set_insert (x # xs) a =
     (if address_less a x then a # x # xs
      else if a = x then x # xs
      else x # set_insert xs a)"

text \<open>
  The first loop of \<open>determinePublic\<close>:
  \<open>for (auto addr: m_ifAddresses)
     if ((m_netPrefs.localNetworking || !isPrivateAddress(addr)) && !isLocalHostAddress(addr))
       m_peerAddresses.insert(addr);\<close>
\<close>

fun populate_peerAddresses ::
  "(ip_address \<Rightarrow> bool) \<Rightarrow> (ip_address \<Rightarrow> bool) \<Rightarrow> bool \<Rightarrow> ip_address list \<Rightarrow> ip_address list \<Rightarrow> ip_address list" where
  "populate_peerAddresses isPrivateAddress isLocalHostAddress localNetworking [] acc = acc"
| "populate_peerAddresses isPrivateAddress isLocalHostAddress localNetworking (addr # rest) acc =
     populate_peerAddresses isPrivateAddress isLocalHostAddress localNetworking rest
       (if (localNetworking \<or> \<not> isPrivateAddress addr) \<and> \<not> isLocalHostAddress addr
        then set_insert acc addr else acc)"

text \<open>
  The loop for a public address:
  \<open>for (auto addr: m_peerAddresses) if (addr.is_v4() && !isPrivateAddress(addr))
     { m_tcpPublic = bi::tcp::endpoint(*m_peerAddresses.begin(), m_listenPort); return; }\<close>
  \<open>begin\<close> is the first element of the set; the loop body runs only if there is one.
\<close>

fun public_loop :: "(ip_address \<Rightarrow> bool) \<Rightarrow> ip_address \<Rightarrow> int \<Rightarrow> ip_address list \<Rightarrow> endpoint option" where
  "public_loop isPrivateAddress begin port [] = None"
| "public_loop isPrivateAddress begin port (addr # rest) =
     (if is_v4 addr \<and> \<not> isPrivateAddress addr
      then Some \<lparr>ep_address = begin, ep_port = word_of_int port\<rparr>
      else public_loop isPrivateAddress begin port rest)"

text \<open>
  The loop for a private address:
  \<open>for (auto addr: m_peerAddresses) if (addr.is_v4() && isPrivateAddress(addr))
     { m_tcpPublic = bi::tcp::endpoint(addr, m_listenPort); return; }\<close>
\<close>

fun private_loop :: "(ip_address \<Rightarrow> bool) \<Rightarrow> int \<Rightarrow> ip_address list \<Rightarrow> endpoint option" where
  "private_loop isPrivateAddress port [] = None"
| "private_loop isPrivateAddress port (addr # rest) =
     (if is_v4 addr \<and> isPrivateAddress addr
      then Some \<lparr>ep_address = addr, ep_port = word_of_int port\<rparr>
      else private_loop isPrivateAddress port rest)"

text \<open>
  \<open>Host::determinePublic\<close>. \<open>isPrivateAddress\<close>, \<open>isLocalHostAddress\<close>,
  \<open>bi::address::from_string\<close> (nothing for a string it throws on) and
  \<open>Network::traverseNAT\<close> (the mapped endpoint and the interface address it reports) are
  defined outside these sources and are parameters.
\<close>

definition determinePublic ::
  "(ip_address \<Rightarrow> bool) \<Rightarrow> (ip_address \<Rightarrow> bool) \<Rightarrow> (string \<Rightarrow> ip_address option) \<Rightarrow>
   (ip_address list \<Rightarrow> int \<Rightarrow> endpoint \<times> ip_address) \<Rightarrow> host \<Rightarrow> string \<Rightarrow> bool \<Rightarrow> fault + host" where
  "determinePublic isPrivateAddress isLocalHostAddress from_string traverseNAT h0 publicAddress upnp =
     (let h1 = h0\<lparr>m_peerAddresses := []\<rparr> in
      if m_ifAddresses h1 = [] \<or> m_listenPort h1 < 1 then Inr h1
      else
        let h2 = h1\<lparr>m_peerAddresses :=
                   populate_peerAddresses isPrivateAddress isLocalHostAddress (m_localNetworking h1)
                     (m_ifAddresses h1) (m_peerAddresses h1)\<rparr>
        in case (if publicAddress = [] then Some address_default else from_string publicAddress) of
             None \<Rightarrow> Inl InvalidAddress
           | Some reqPublicAddr \<Rightarrow>
               let reqPublic = \<lparr>ep_address = reqPublicAddr, ep_port = word_of_int (m_listenPort h2)\<rparr>;
                   isprivate = isPrivateAddress reqPublicAddr;
                   ispublic = (\<not> isprivate \<and> \<not> isLocalHostAddress reqPublicAddr)
               in if \<not> is_unspecified reqPublicAddr \<and> (ispublic \<or> (isprivate \<and> m_localNetworking h2))
                  then Inr (h2\<lparr>m_peerAddresses := set_insert (m_peerAddresses h2) reqPublicAddr,
                               m_tcpPublic := reqPublic\<rparr>)
                  else
                    case (case m_peerAddresses h2 of
                            [] \<Rightarrow> None
                          | begin # _ \<Rightarrow> public_loop isPrivateAddress begin (m_listenPort h2) (m_peerAddresses h2)) of
                      Some ep \<Rightarrow> Inr (h2\<lparr>m_tcpPublic := ep\<rparr>)
                    | None \<Rightarrow>
                        case (if upnp
                              then let (upnpep, upnpifaddr) = traverseNAT (m_ifAddresses h2) (m_listenPort h2)
                                   in if \<not> is_unspecified (ep_address upnpep) \<and> \<not> is_unspecified upnpifaddr
                                      then Some upnpep else None
                              else None) of
                          Some upnpep \<Rightarrow>
                            Inr (h2\<lparr>m_peerAddresses := set_insert (m_peerAddresses h2) (ep_address upnpep),
                                    m_tcpPublic := upnpep\<rparr>)
                        | None \<Rightarrow>
                            case (if is_unspecified reqPublicAddr \<and> m_localNetworking h2
                                  then private_loop isPrivateAddress (m_listenPort h2) (m_peerAddresses h2)
                                  else None) of
                              Some ep \<Rightarrow> Inr (h2\<lparr>m_tcpPublic := ep\<rparr>)
                            | None \<Rightarrow>
                                Inr (h2\<lparr>m_tcpPublic :=
                                       \<lparr>ep_address = address_default, ep_port = word_of_int (m_listenPort h2)\<rparr>\<rparr>))"

text \<open>
  Modelled from the spec: \<open>isPrivateAddress\<close> and \<open>isLocalHostAddress\<close> are defined
  outside these sources. The spec calls 10.0.0.1 private and a public IPv4 address not
  private; the stand-ins used in the examples take the private IPv4 ranges 10/8, 172.16/12
  and 192.168/16, and the loopback addresses 127.0.0.1 and ::1.
\<close>

definition rfc1918_private :: "ip_address \<Rightarrow> bool" where
  "rfc1918_private a =
     (case a of
        V4 w \<Rightarrow> drop_bit 24 w = 10 \<or> drop_bit 20 w = 0xAC1 \<or> drop_bit 16 w = 0xC0A8
      | V6 _ \<Rightarrow> False)"

definition loopback :: "ip_address \<Rightarrow> bool" where
  "loopback a = (a = V4 0x7F000001 \<or> a = V6 1)"

text \<open>An address parser that knows no address, and a NAT traversal that maps nothing.\<close>

definition from_string_none :: "string \<Rightarrow> ip_address option" where
  "from_string_none s = None"

definition traverseNAT_none :: "ip_address list \<Rightarrow> int \<Rightarrow> endpoint \<times> ip_address" where
  "traverseNAT_none ifs port = (endpoint_default, address_default)"

text \<open>
  A host with local networking enabled and two interfaces, 10.0.0.5 and 52.1.2.3, that
  listens on port 30303.
\<close>

definition host_two_interfaces :: host where
  "host_two_interfaces = (Host [V4 0x0A000005, V4 0x34010203] True key_H)\<lparr>m_run := True, m_listenPort := 30303\<rparr>"

section \<open>Serialised items\<close>

text \<open>
  The RLP classes (\<open>RLP\<close>, \<open>RLPStream\<close>) are defined outside these sources. An item is
  a byte string or a list of items; \<open>RLPNull\<close> is the empty \<open>RLP()\<close> that indexing
  outside a list returns. \<open>saveNodes\<close> and \<open>restoreNodes\<close> are modelled on items: the byte
  encoding of an item and its decoding by \<open>RLP(bytes)\<close> are left to the library.
\<close>

datatype rlp = RLPNull | RLPData bytes | RLPList "rlp list"

text \<open>Big-endian bytes of a number without leading zeros (none for 0), and back.\<close>

function toBigEndian :: "nat \<Rightarrow> bytes" where
  "toBigEndian n = (if n = 0 then [] else toBigEndian (n div 256) @ [word_of_nat (n mod 256)])"
  by pat_completeness auto
termination
  by (relation "measure id") auto

declare toBigEndian.simps [simp del]

definition fromBigEndian :: "bytes \<Rightarrow> nat" where
  "fromBigEndian bs = foldl (\<lambda>a b. a * 256 + unat b) 0 bs"

text \<open>\<open>RLPStream::append(unsigned)\<close>: the number as a byte string.\<close>

definition rlp_unsigned :: "32 word \<Rightarrow> rlp" where
  "rlp_unsigned w = RLPData (toBigEndian (unat w))"

text \<open>
  \<open>RLPStream::append(std::array<unsigned char, N>)\<close>: a list of \<open>N\<close> numbers.
\<close>

definition rlp_array :: "bytes \<Rightarrow> rlp" where
  "rlp_array bs = RLPList (map (\<lambda>b. rlp_unsigned (ucast b)) bs)"

text \<open>\<open>to_v4().to_bytes()\<close> and \<open>to_v6().to_bytes()\<close>: the address in network byte order.\<close>

definition to_bytes :: "ip_address \<Rightarrow> bytes" where
  "to_bytes a =
     (case a of
        V4 w \<Rightarrow> map (\<lambda>i. ucast (drop_bit (8 * i) w)) (rev [0..<4])
      | V6 w \<Rightarrow> map (\<lambda>i. ucast (drop_bit (8 * i) w)) (rev [0..<16]))"

text \<open>The integer code of a disconnect reason.\<close>

fun reason_code :: "DisconnectReason \<Rightarrow> 32 word" where
  "reason_code NoDisconnect = 0"
| "reason_code ClientQuit = 1"
| "reason_code DisconnectRequested = 2"
| "reason_code TCPError = 3"
| "reason_code BadProtocol = 4"
| "reason_code UselessPeer = 5"
| "reason_code TooManyPeers = 6"
| "reason_code DuplicatePeer = 7"
| "reason_code IncompatibleProtocol = 8"
| "reason_code NullIdentity = 9"
| "reason_code UnexpectedIdentity = 10"
| "reason_code LocalIdentity = 11"
| "reason_code PingTimeout = 12"
| "reason_code UserReason = 13"

section \<open>\<open>Host::saveNodes\<close>\<close>

text \<open>
  \<open>system_clock\<close> counts nanoseconds. \<open>duration_cast<seconds>\<close> divides the tick
  count, rounding towards zero.
\<close>

definition duration_cast_seconds :: "int \<Rightarrow> int" where
  "duration_cast_seconds t = (if 0 \<le> t then t div 1000000000 else - (- t div 1000000000))"

text \<open>
  A \<open>system_clock\<close> time point and the difference of two are 64-bit signed tick counts.
  The difference of two time points that does not fit wraps around.
\<close>

definition wrap64 :: "int \<Rightarrow> int" where
  "wrap64 x = (x + 2 ^ 63) mod 2 ^ 64 - 2 ^ 63"

text \<open>
  The test of the loop, for the peer \<open>n\<close> and the clock reading \<open>now\<close>:
  \<open>now - n.lastConnected < chrono::seconds(3600 * 48) && n.peerEndpoint().port() > 0 &&
   n.peerEndpoint().port() < 32768 && n.id != id() && !isPrivateAddress(n.peerEndpoint().address())\<close>
\<close>

definition save_selected :: "(ip_address \<Rightarrow> bool) \<Rightarrow> node_id \<Rightarrow> int \<Rightarrow> peer \<Rightarrow> bool" where
  "save_selected isPrivateAddress self now n =
     (wrap64 (now - lastConnected n) < 3600 * 48 * 1000000000 \<and>
      unat (ep_port (endpoint_tcp n)) > 0 \<and>
      unat (ep_port (endpoint_tcp n)) < 32768 \<and>
      peer_id n \<noteq> self \<and>
      \<not> isPrivateAddress (ep_address (endpoint_tcp n)))"

text \<open>
  The ten items written for a selected peer. The numbers go through
  \<open>RLPStream::append(unsigned)\<close>, which keeps their low 32 bits.
\<close>

definition peer_entry :: "peer \<Rightarrow> rlp" where
  "peer_entry n =
     RLPList [rlp_array (to_bytes (ep_address (endpoint_tcp n))),
              rlp_unsigned (ucast (ep_port (endpoint_tcp n))),
              RLPData (peer_id n),
              rlp_unsigned 0,
              rlp_unsigned (word_of_int (duration_cast_seconds (lastConnected n))),
              rlp_unsigned (word_of_int (duration_cast_seconds (lastAttempted n))),
              rlp_unsigned (failedAttempts n),
              rlp_unsigned (reason_code (lastDisconnect n)),
              rlp_unsigned (score n),
              rlp_unsigned (rating n)]"

text \<open>
  The loop over \<open>m_peers\<close>. \<open>nodes\<close> is the stream of entries written so far and
  \<open>count\<close> their number; \<open>clock k\<close> is what \<open>system_clock::now()\<close> returns in the
  iteration for the peer at position \<open>k\<close>.
\<close>

fun saveNodes_loop ::
  "(ip_address \<Rightarrow> bool) \<Rightarrow> (nat \<Rightarrow> int) \<Rightarrow> host \<Rightarrow> nat \<Rightarrow> (node_id \<times> peer_ptr) list \<Rightarrow>
   rlp list \<times> int \<Rightarrow> fault + rlp list \<times> int" where
  "saveNodes_loop isPrivateAddress clock h k [] acc = Inr acc"
| "saveNodes_loop isPrivateAddress clock h k (i # rest) acc =
     (case peer_store h (snd i) of
        None \<Rightarrow> Inl NullPointer
      | Some n \<Rightarrow>
          saveNodes_loop isPrivateAddress clock h (Suc k) rest
            (if save_selected isPrivateAddress (kp_pub (m_alias h)) (clock k) n
             then (fst acc @ [peer_entry n], snd acc + 1)
             else acc))"

text \<open>
  \<open>RLPStream ret(3); ret << 0 << m_alias.secret();
   ret.appendList(count).appendRaw(nodes.out(), count); return ret.out();\<close>
\<close>

definition saveNodes :: "(ip_address \<Rightarrow> bool) \<Rightarrow> (nat \<Rightarrow> int) \<Rightarrow> host \<Rightarrow> fault + rlp" where
  "saveNodes isPrivateAddress clock h =
     and_then (saveNodes_loop isPrivateAddress clock h 0 (m_peers h) ([], 0))
       (\<lambda>acc. Inr (RLPList [rlp_unsigned 0, RLPData (kp_secret (m_alias h)), RLPList (fst acc)]))"

text \<open>
  The selection rule in the words of the spec (section 6), for a peer \<open>n\<close> at the time
  \<open>now\<close>: (a) \<open>now - last_connected < 48 h\<close>, (b) \<open>0 < tcp_port < 32768\<close>,
  (c) \<open>node_id \<noteq> self_id\<close>, (d) the endpoint is not private. The difference is the
  number, whatever its size.
\<close>

definition selection_rule :: "(ip_address \<Rightarrow> bool) \<Rightarrow> node_id \<Rightarrow> int \<Rightarrow> peer \<Rightarrow> bool" where
  "selection_rule isPrivateAddress self_id now n =
     (now - lastConnected n < 48 * 3600 * 1000000000 \<and>
      0 < unat (ep_port (endpoint_tcp n)) \<and> unat (ep_port (endpoint_tcp n)) < 32768 \<and>
      peer_id n \<noteq> self_id \<and>
      \<not> isPrivateAddress (ep_address (endpoint_tcp n)))"

section \<open>\<open>Host::restoreNodes\<close>\<close>

text \<open>
  The accessors of \<open>RLP\<close> that \<open>restoreNodes\<close> calls, with their default \<open>Strict\<close>
  flags: a conversion that fails throws \<open>BadCast\<close>.
\<close>

definition itemCount :: "rlp \<Rightarrow> nat" where
  "itemCount r = (case r of RLPList xs \<Rightarrow> length xs | _ \<Rightarrow> 0)"

text \<open>\<open>r[i]\<close>.\<close>

definition rlp_at :: "rlp \<Rightarrow> nat \<Rightarrow> rlp" where
  "rlp_at r i = (case r of RLPList xs \<Rightarrow> if i < length xs then xs ! i else RLPNull | _ \<Rightarrow> RLPNull)"

text \<open>The items that \<open>for (auto i: r)\<close> visits.\<close>

definition items :: "rlp \<Rightarrow> rlp list" where
  "items r = (case r of RLPList xs \<Rightarrow> xs | _ \<Rightarrow> [])"

text \<open>A byte string is an integer when it has no leading zero byte.\<close>

definition isInt :: "rlp \<Rightarrow> bool" where
  "isInt r = (case r of RLPData bs \<Rightarrow> (case bs of [] \<Rightarrow> True | b # _ \<Rightarrow> b \<noteq> 0) | _ \<Rightarrow> False)"

text \<open>\<open>toInt<T>()\<close> for an integer type of \<open>maxSize\<close> bytes.\<close>

definition toInt :: "nat \<Rightarrow> rlp \<Rightarrow> fault + nat" where
  "toInt maxSize r =
     (case r of
        RLPData bs \<Rightarrow> if isInt r \<and> length bs \<le> maxSize then Inr (fromBigEndian bs) else Inl BadCast
      | _ \<Rightarrow> Inl BadCast)"

text \<open>\<open>toHash<FixedHash<N>>()\<close>: a shorter string is right-aligned.\<close>

definition toHash :: "nat \<Rightarrow> rlp \<Rightarrow> fault + bytes" where
  "toHash N r =
     (case r of
        RLPData bs \<Rightarrow> if length bs > N then Inl BadCast else Inr (replicate (N - length bs) 0 @ bs)
      | _ \<Rightarrow> Inl BadCast)"

fun toInt_each :: "rlp list \<Rightarrow> fault + bytes" where
  "toInt_each [] = Inr []"
| "toInt_each (x # xs) =
     and_then (toInt 1 x) (\<lambda>b. and_then (toInt_each xs) (\<lambda>bs. Inr (word_of_nat b # bs)))"

text \<open>\<open>toArray<byte, N>()\<close>.\<close>

definition toArray :: "nat \<Rightarrow> rlp \<Rightarrow> fault + bytes" where
  "toArray N r =
     (case r of
        RLPList xs \<Rightarrow> if length xs \<noteq> N then Inl BadCast else toInt_each xs
      | _ \<Rightarrow> Inl BadCast)"

text \<open>\<open>bi::address_v4(bytes)\<close> and \<open>bi::address_v6(bytes)\<close>.\<close>

definition address_of_bytes :: "bytes \<Rightarrow> ip_address" where
  "address_of_bytes bs = (if length bs = 4 then V4 (word_of_nat (fromBigEndian bs)) else V6 (word_of_nat (fromBigEndian bs)))"

text \<open>
  The endpoint that both loops of \<open>restoreNodes\<close> read from an entry:
  \<open>if (i[0].itemCount() == 4) ep = endpoint(address_v4(i[0].toArray<byte, 4>()), i[1].toInt<short>());
   else ep = endpoint(address_v6(i[0].toArray<byte, 16>()), i[1].toInt<short>());\<close>
\<close>

definition entry_endpoint :: "rlp \<Rightarrow> fault + endpoint" where
  "entry_endpoint i =
     and_then (if itemCount (rlp_at i 0) = 4 then toArray 4 (rlp_at i 0) else toArray 16 (rlp_at i 0))
       (\<lambda>a. and_then (toInt 2 (rlp_at i 1))
         (\<lambda>p. Inr \<lparr>ep_address = address_of_bytes a, ep_port = word_of_nat p\<rparr>))"

text \<open>
  The loop of the versioned format. Its body reads the endpoint and the id and ends with
  \<open>if (!m_peers.count(id)) { }\<close>: the statements that would record the peer are commented
  out in the source, so an iteration can only throw.
\<close>

fun restore_loop :: "host \<Rightarrow> rlp list \<Rightarrow> fault + host" where
  "restore_loop h [] = Inr h"
| "restore_loop h (i # rest) =
     and_then (entry_endpoint i) (\<lambda>ep.
     and_then (toHash 64 (rlp_at i 2)) (\<lambda>id.
       restore_loop h rest))"

text \<open>
  The loop of the format without a version: the id first, and the endpoint only for an id
  that \<open>m_peers\<close> does not hold; the call that would record the peer is commented out too.
\<close>

fun restore_loop_legacy :: "host \<Rightarrow> rlp list \<Rightarrow> fault + host" where
  "restore_loop_legacy h [] = Inr h"
| "restore_loop_legacy h (i # rest) =
     and_then (toHash 64 (rlp_at i 2)) (\<lambda>id.
       if map_of (m_peers h) id = None
       then and_then (entry_endpoint i) (\<lambda>ep. restore_loop_legacy h rest)
       else restore_loop_legacy h rest)"

text \<open>
  \<open>Host::restoreNodes\<close>. \<open>KeyPair(secret)\<close> derives the public key with a function of the
  crypto library, the parameter \<open>toPublic\<close>. After \<open>case 0\<close> control falls into the empty
  \<open>default\<close>.
\<close>

definition restoreNodes :: "(secret \<Rightarrow> node_id) \<Rightarrow> host \<Rightarrow> rlp \<Rightarrow> fault + host" where
  "restoreNodes toPublic h r =
     (if itemCount r > 0 \<and> isInt (rlp_at r 0)
      then and_then (toInt 4 (rlp_at r 0)) (\<lambda>version.
             if version = 0
             then and_then (toHash 32 (rlp_at r 1)) (\<lambda>s.
                    restore_loop (h\<lparr>m_alias := \<lparr>kp_secret = s, kp_pub = toPublic s\<rparr>\<rparr>) (items (rlp_at r 2)))
             else Inr h)
      else restore_loop_legacy h (items r))"

text \<open>
  The peers of scenario S5 at the time 1700000000 s after the epoch: \<open>peer_A\<close> was
  connected one hour before on the public 52.1.2.3:30303, \<open>peer_B\<close> 72 hours before, and
  \<open>peer_C\<close> ten minutes before on the private 10.0.0.1.
\<close>

definition now_S5 :: int where
  "now_S5 = 1700000000000000000"

definition clock_S5 :: "nat \<Rightarrow> int" where
  "clock_S5 k = now_S5"

definition peer_A :: peer where
  "peer_A = \<lparr>peer_id = node_A, endpoint_tcp = ep_A, score = 10, rating = 3,
     lastConnected = 1699996400000000000, lastAttempted = 1699996400000000000,
     failedAttempts = 2, lastDisconnect = ClientQuit\<rparr>"

definition peer_B :: peer where
  "peer_B = \<lparr>peer_id = node_B, endpoint_tcp = \<lparr>ep_address = V4 0x34010204, ep_port = 30303\<rparr>,
     score = 0, rating = 0,
     lastConnected = 1699740800000000000, lastAttempted = 1699740800000000000,
     failedAttempts = 0, lastDisconnect = NoDisconnect\<rparr>"

definition peer_C :: peer where
  "peer_C = \<lparr>peer_id = node_C, endpoint_tcp = \<lparr>ep_address = V4 0x0A000001, ep_port = 30303\<rparr>,
     score = 0, rating = 0,
     lastConnected = 1699999400000000000, lastAttempted = 1699999400000000000,
     failedAttempts = 0, lastDisconnect = NoDisconnect\<rparr>"

definition host_S5 :: host where
  "host_S5 = (Host [] False key_H)\<lparr>m_peers := [(node_A, 1), (node_B, 2), (node_C, 3)],
     peer_store := [1 \<mapsto> peer_A, 2 \<mapsto> peer_B, 3 \<mapsto> peer_C], next_peer := 4\<rparr>"

definition saved_S5 :: rlp where
  "saved_S5 = RLPList [rlp_unsigned 0, RLPData (kp_secret key_H), RLPList [peer_entry peer_A]]"

definition key_fresh :: KeyPair where
  "key_fresh = \<lparr>kp_secret = replicate 32 9, kp_pub = replicate 64 0x63\<rparr>"

section \<open>The identity store: \<open>Host::getHostIdentifier\<close>\<close>

text \<open>
  The file system is a map from paths to file contents. \<open>contents\<close> (of the
  \<open>libdevcore\<close> I/O helpers, outside these sources) returns the bytes of a file, and no
  bytes for a file that is not there.
\<close>

type_synonym filesystem = "string \<rightharpoonup> bytes"

definition contents :: "filesystem \<Rightarrow> string \<Rightarrow> bytes" where
  "contents fs f = (case fs f of None \<Rightarrow> [] | Some b \<Rightarrow> b)"

text \<open>
  \<open>getHostIdentifier\<close>, with the data directory of \<open>getDataDir()\<close>, the bytes \<open>d 0\<close>,
  ..., \<open>d 31\<close> that the random engine and the distribution deliver, and the key
  derivation \<open>toPublic\<close> of \<open>KeyPair\<close>. It returns the key pair together with the file
  system as it leaves it; the source has no statement that writes a file.
\<close>

definition getHostIdentifier ::
  "string \<Rightarrow> (nat \<Rightarrow> byte) \<Rightarrow> (secret \<Rightarrow> node_id) \<Rightarrow> filesystem \<Rightarrow> fault + KeyPair \<times> filesystem" where
  "getHostIdentifier dataDir d toPublic fs =
     (let s_file = dataDir @ ''/host'';
          b = contents fs s_file;
          secret = (if length b = 32 then b else map d [0..<32])
      in if secret = replicate 32 0 then Inl InvalidState
         else Inr (\<lparr>kp_secret = secret, kp_pub = toPublic secret\<rparr>, fs))"

text \<open>
  Stand-ins for the examples: a key derivation that doubles the secret (the real one is
  the crypto library's), and two runs of the random engine.
\<close>

definition toPublic_standin :: "secret \<Rightarrow> node_id" where
  "toPublic_standin s = s @ s"

definition rng_ones :: "nat \<Rightarrow> byte" where
  "rng_ones i = 1"

definition rng_twos :: "nat \<Rightarrow> byte" where
  "rng_twos i = 2"

definition fs_empty :: filesystem where
  "fs_empty = Map.empty"


section \<open>Verified properties\<close>

subsection \<open>The framing header\<close>

lemma unat_low_byte: "unat (ucast ((w::32 word) AND 0xff) :: byte) = unat w mod 256"
proof -
  have "(w AND 0xff) = take_bit 8 w" by (simp add: take_bit_eq_mask mask_eq_exp_minus_1)
  then have "unat (ucast (w AND 0xff) :: byte) = take_bit 8 (take_bit 8 (unat w))"
    by (simp only: unsigned_ucast_eq unsigned_take_bit_eq) simp
  then show ?thesis
    by (simp add: take_bit_eq_mod)
qed

lemma unat_drop_byte: "unat (ucast (drop_bit n (w::32 word) AND 0xff) :: byte) = unat w div 2 ^ n mod 256"
proof -
  have "unat (drop_bit n w) = unat w div 2 ^ n"
    by (simp only: unat_drop_bit_eq) (simp add: drop_bit_eq_div)
  then show ?thesis unfolding unat_low_byte by simp
qed

lemma nat_bytes_join:
  assumes "(n::nat) < 2 ^ 32"
  shows "n div 2 ^ 24 mod 256 * 2 ^ 24 + n div 2 ^ 16 mod 256 * 2 ^ 16 + n div 2 ^ 8 mod 256 * 2 ^ 8 + n mod 256 = n"
proof -
  have a: "n mod 2 ^ 32 = 2 ^ 24 * (n div 2 ^ 24 mod 256) + n mod 2 ^ 24"
    using mod_mult2_eq [of n "2 ^ 24" 256] by simp
  have b: "n mod 2 ^ 24 = 2 ^ 16 * (n div 2 ^ 16 mod 256) + n mod 2 ^ 16"
    using mod_mult2_eq [of n "2 ^ 16" 256] by simp
  have c: "n mod 2 ^ 16 = 2 ^ 8 * (n div 2 ^ 8 mod 256) + n mod 2 ^ 8"
    using mod_mult2_eq [of n "2 ^ 8" 256] by simp
  have d: "n mod 2 ^ 32 = n" using assms by simp
  show ?thesis using a b c d by simp
qed

lemma be_u32_split:
  "be_u32 (ucast (drop_bit 24 w AND 0xff)) (ucast (drop_bit 16 w AND 0xff))
          (ucast (drop_bit 8 w AND 0xff)) (ucast (w AND 0xff)) = unat (w::32 word)"
proof -
  have lt: "unat w < 2 ^ 32" using unsigned_less [of w, where 'a = nat] by simp
  show ?thesis
    apply (simp only: be_u32_def unat_drop_byte)
    apply (simp only: unat_low_byte)
    using lt by (rule nat_bytes_join)
qed

lemma unat_seal_len: "unat (seal_len b) = (length b + 2 ^ 32 - 8) mod 2 ^ 32"
proof -
  have "seal_len b = word_of_nat (length b + 2 ^ 32 - 8)"
    by (simp add: seal_len_def of_nat_diff)
  then show ?thesis by (simp only: unat_of_nat) simp
qed

lemma len8_cases:
  assumes "8 \<le> length (b::'a list)"
  shows "\<exists>x0 x1 x2 x3 x4 x5 x6 x7 r. b = x0 # x1 # x2 # x3 # x4 # x5 # x6 # x7 # r"
proof -
  from assms obtain x0 r0 where "b = x0 # r0" "7 \<le> length r0" by (cases b) auto
  moreover then obtain x1 r1 where "r0 = x1 # r1" "6 \<le> length r1" by (cases r0) auto
  moreover then obtain x2 r2 where "r1 = x2 # r2" "5 \<le> length r2" by (cases r1) auto
  moreover then obtain x3 r3 where "r2 = x3 # r3" "4 \<le> length r3" by (cases r2) auto
  moreover then obtain x4 r4 where "r3 = x4 # r4" "3 \<le> length r4" by (cases r3) auto
  moreover then obtain x5 r5 where "r4 = x5 # r5" "2 \<le> length r5" by (cases r4) auto
  moreover then obtain x6 r6 where "r5 = x6 # r6" "1 \<le> length r6" by (cases r5) auto
  moreover then obtain x7 r7 where "r6 = x7 # r7" by (cases r6) auto
  ultimately show ?thesis by blast
qed

lemma seal_ok:
  assumes "8 \<le> length b"
  shows "seal b = Inr (seal_header (seal_len b) @ drop 8 b)"
proof -
  from len8_cases [OF assms] obtain x0 x1 x2 x3 x4 x5 x6 x7 r
    where b: "b = x0 # x1 # x2 # x3 # x4 # x5 # x6 # x7 # r" by blast
  show ?thesis
    by (simp add: b seal_def and_then_def store_byte_def Let_def seal_header_def seal_len_def)
qed

lemma store_byte_Inr: "store_byte b i v = Inr b' \<Longrightarrow> i < length b \<and> length b' = length b"
  by (auto simp: store_byte_def split: if_splits)

lemma seal_as_writes: "seal b = store_all b (seal_writes b)"
  by (simp add: seal_def seal_writes_def store_byte_def and_then_def Let_def seal_len_def)

lemma seal_short:
  assumes "length b < 8"
  shows "seal b = Inl (OutOfBounds (length b))"
proof -
  from assms consider "length b = 0" | "length b = 1" | "length b = 2" | "length b = 3"
    | "length b = 4" | "length b = 5" | "length b = 6" | "length b = 7" by linarith
  then show ?thesis
    by cases (simp_all add: seal_def store_byte_def and_then_def Let_def)
qed

text \<open>
  Claim C8. For every buffer of at least 8 bytes whose first 8 bytes are zero, \<open>seal\<close>
  succeeds, and sealing the result again returns the same bytes. The sealed buffer keeps its
  length and its payload (everything after byte 7); bytes 0-3 are the magic
  \<open>0x22 0x40 0x08 0x91\<close> and bytes 4-7, read as a big-endian unsigned 32-bit number, are
  the buffer length minus 8 (as a 32-bit value, that is modulo \<open>2 ^ 32\<close>).
\<close>

theorem seal_idempotent:
  assumes "8 \<le> length b" and "take 8 b = replicate 8 0"
  shows "\<exists>b'. seal b = Inr b' \<and> seal b' = Inr b' \<and> length b' = length b \<and>
           drop 8 b' = drop 8 b \<and> take 4 b' = [0x22, 0x40, 0x08, 0x91] \<and>
           be_u32 (b' ! 4) (b' ! 5) (b' ! 6) (b' ! 7) = (length b - 8) mod 2 ^ 32"
proof -
  define b' where "b' = seal_header (seal_len b) @ drop 8 b"
  have hl: "length (seal_header (seal_len b)) = 8" by (simp add: seal_header_def)
  have len: "length b' = length b" using assms(1) by (simp add: b'_def hl)
  have dr: "drop 8 b' = drop 8 b" by (simp add: b'_def hl)
  have s1: "seal b = Inr b'" unfolding b'_def by (rule seal_ok [OF assms(1)])
  have sl: "seal_len b' = seal_len b" by (simp add: seal_len_def len)
  have "8 \<le> length b'" using len assms(1) by simp
  then have "seal b' = Inr (seal_header (seal_len b') @ drop 8 b')" by (rule seal_ok)
  then have s2: "seal b' = Inr b'" by (simp only: sl dr b'_def [symmetric])
  have mg: "take 4 b' = [0x22, 0x40, 0x08, 0x91]" by (simp add: b'_def seal_header_def)
  have "be_u32 (b' ! 4) (b' ! 5) (b' ! 6) (b' ! 7) = unat (seal_len b)"
    by (simp add: b'_def seal_header_def be_u32_split)
  moreover have "unat (seal_len b) = (length b - 8) mod 2 ^ 32"
  proof -
    have e: "length b + 2 ^ 32 - 8 = (length b - 8) + 2 ^ 32" using assms(1) by simp
    have "unat (seal_len b) = ((length b - 8) + 2 ^ 32) mod 2 ^ 32"
      by (simp only: unat_seal_len e)
    also have "\<dots> = (length b - 8) mod 2 ^ 32" by (rule mod_add_self2)
    finally show ?thesis .
  qed
  ultimately show ?thesis using s1 s2 len dr mg by auto
qed

theorem seal_idempotent_witness:
  "8 \<le> length [0, 0, 0, 0, 0, 0, 0, 0, 1, 2, 3 :: byte] \<and>
   take 8 [0, 0, 0, 0, 0, 0, 0, 0, 1, 2, 3 :: byte] = replicate 8 0 \<and>
   seal [0, 0, 0, 0, 0, 0, 0, 0, 1, 2, 3] = Inr [0x22, 0x40, 0x08, 0x91, 0, 0, 0, 3, 1, 2, 3] \<and>
   seal [0x22, 0x40, 0x08, 0x91, 0, 0, 0, 3, 1, 2, 3] = Inr [0x22, 0x40, 0x08, 0x91, 0, 0, 0, 3, 1, 2, 3]"
proof -
  let ?b = "[0, 0, 0, 0, 0, 0, 0, 0, 1, 2, 3 :: byte]"
  have h1: "8 \<le> length ?b" by simp
  have h2: "take 8 ?b = replicate 8 0" by (simp add: numeral_eq_Suc)
  from seal_idempotent [OF h1 h2] obtain b' where
    b': "seal ?b = Inr b'" "seal b' = Inr b'" by blast
  have e: "seal ?b = Inr [0x22, 0x40, 0x08, 0x91, 0, 0, 0, 3, 1, 2, 3]"
    by (simp add: seal_def and_then_def store_byte_def Let_def seal_len_def)
  with b' have "b' = [0x22, 0x40, 0x08, 0x91, 0, 0, 0, 3, 1, 2, 3]" by simp
  with b' e h1 h2 show ?thesis by simp
qed

text \<open>
  Claim C9. \<open>seal\<close> carries out the eight assignments to the indices 0 to 7 whatever the
  size of the buffer: the magic \<open>0x22 0x40 0x08 0x91\<close> and the four bytes of the length
  field, which is the unsigned 32-bit value \<open>(length - 8) mod 2 ^ 32\<close>. On a buffer of at
  least 8 bytes the result is these eight bytes followed by the rest of the buffer. On a
  shorter buffer the assignment to the index \<open>length\<close> is the first one outside the vector,
  and the length field has wrapped around to \<open>2 ^ 32 - (8 - length)\<close>.
\<close>

theorem seal_requires_8_bytes:
  "seal b = store_all b (seal_writes b) \<and>
   map fst (seal_writes b) = [0, 1, 2, 3, 4, 5, 6, 7] \<and>
   take 4 (map snd (seal_writes b)) = [0x22, 0x40, 0x08, 0x91] \<and>
   be_u32 (snd (seal_writes b ! 4)) (snd (seal_writes b ! 5))
          (snd (seal_writes b ! 6)) (snd (seal_writes b ! 7)) = (length b + 2 ^ 32 - 8) mod 2 ^ 32 \<and>
   seal b = (if 8 \<le> length b then Inr (map snd (seal_writes b) @ drop 8 b)
             else Inl (OutOfBounds (length b))) \<and>
   (length b < 8 \<longrightarrow>
      be_u32 (snd (seal_writes b ! 4)) (snd (seal_writes b ! 5))
             (snd (seal_writes b ! 6)) (snd (seal_writes b ! 7)) = 2 ^ 32 - (8 - length b))"
proof -
  have w: "map snd (seal_writes b) = seal_header (seal_len b)"
    by (simp add: seal_writes_def seal_header_def Let_def)
  have c1: "seal b = store_all b (seal_writes b)" by (rule seal_as_writes)
  have c2: "map fst (seal_writes b) = [0, 1, 2, 3, 4, 5, 6, 7]"
    by (simp add: seal_writes_def Let_def)
  have c3: "take 4 (map snd (seal_writes b)) = [0x22, 0x40, 0x08, 0x91]"
    by (simp add: seal_writes_def Let_def)
  have "be_u32 (snd (seal_writes b ! 4)) (snd (seal_writes b ! 5))
          (snd (seal_writes b ! 6)) (snd (seal_writes b ! 7)) = unat (seal_len b)"
    by (simp add: seal_writes_def Let_def be_u32_split)
  then have c4: "be_u32 (snd (seal_writes b ! 4)) (snd (seal_writes b ! 5))
          (snd (seal_writes b ! 6)) (snd (seal_writes b ! 7)) = (length b + 2 ^ 32 - 8) mod 2 ^ 32"
    by (simp only: unat_seal_len)
  have c5: "seal b = (if 8 \<le> length b then Inr (map snd (seal_writes b) @ drop 8 b)
             else Inl (OutOfBounds (length b)))"
  proof (cases "8 \<le> length b")
    case True
    then show ?thesis by (simp add: seal_ok w)
  next
    case False
    then have "length b < 8" by simp
    then have "seal b = Inl (OutOfBounds (length b))" by (rule seal_short)
    with False show ?thesis by simp
  qed
  have c6: "length b < 8 \<longrightarrow>
      be_u32 (snd (seal_writes b ! 4)) (snd (seal_writes b ! 5))
             (snd (seal_writes b ! 6)) (snd (seal_writes b ! 7)) = 2 ^ 32 - (8 - length b)"
    by (simp only: c4) simp
  show ?thesis
    apply (intro conjI)
         apply (rule c1)
        apply (rule c2)
       apply (rule c3)
      apply (rule c4)
     apply (rule c5)
    apply (rule c6)
    done
qed

theorem seal_requires_8_bytes_witness:
  "length [1, 2, 3 :: byte] < 8 \<and> seal [1, 2, 3] = Inl (OutOfBounds 3) \<and>
   be_u32 (snd (seal_writes [1, 2, 3] ! 4)) (snd (seal_writes [1, 2, 3] ! 5))
          (snd (seal_writes [1, 2, 3] ! 6)) (snd (seal_writes [1, 2, 3] ! 7)) = 4294967291 \<and>
   seal [9, 9, 9, 9, 9, 9, 9, 9, 1, 2, 3] = Inr [0x22, 0x40, 0x08, 0x91, 0, 0, 0, 3, 1, 2, 3]"
proof -
  have s: "length [1, 2, 3 :: byte] < 8" by simp
  from seal_requires_8_bytes [of "[1, 2, 3]"]
  have a: "seal [1, 2, 3] = (if 8 \<le> length [1, 2, 3 :: byte]
             then Inr (map snd (seal_writes [1, 2, 3]) @ drop 8 [1, 2, 3])
             else Inl (OutOfBounds (length [1, 2, 3 :: byte])))"
    and f: "be_u32 (snd (seal_writes [1, 2, 3] ! 4)) (snd (seal_writes [1, 2, 3] ! 5))
          (snd (seal_writes [1, 2, 3] ! 6)) (snd (seal_writes [1, 2, 3] ! 7)) =
          (length [1, 2, 3 :: byte] + 2 ^ 32 - 8) mod 2 ^ 32"
    by blast+
  from seal_requires_8_bytes [of "[9, 9, 9, 9, 9, 9, 9, 9, 1, 2, 3]"]
  have l: "seal [9, 9, 9, 9, 9, 9, 9, 9, 1, 2, 3] =
      (if 8 \<le> length [9, 9, 9, 9, 9, 9, 9, 9, 1, 2, 3 :: byte]
       then Inr (map snd (seal_writes [9, 9, 9, 9, 9, 9, 9, 9, 1, 2, 3]) @ drop 8 [9, 9, 9, 9, 9, 9, 9, 9, 1, 2, 3])
       else Inl (OutOfBounds (length [9, 9, 9, 9, 9, 9, 9, 9, 1, 2, 3 :: byte])))"
    by blast
  have a': "seal [1, 2, 3] = Inl (OutOfBounds 3)" using a by simp
  have f': "be_u32 (snd (seal_writes [1, 2, 3] ! 4)) (snd (seal_writes [1, 2, 3] ! 5))
          (snd (seal_writes [1, 2, 3] ! 6)) (snd (seal_writes [1, 2, 3] ! 7)) = 4294967291"
    using f by simp
  have l': "seal [9, 9, 9, 9, 9, 9, 9, 9, 1, 2, 3] = Inr [0x22, 0x40, 0x08, 0x91, 0, 0, 0, 3, 1, 2, 3]"
    using l by (simp add: seal_writes_def seal_len_def Let_def)
  from s a' f' l' show ?thesis by blast
qed

subsection \<open>Status queries\<close>

text \<open>
  Claim C10. While the host is not running (\<open>isStarted\<close> is false), \<open>peers\<close> returns
  the empty list, whatever the session registry holds.
\<close>

theorem peers_empty_when_stopped: "\<not> isStarted h \<Longrightarrow> peers h = []"
  by (simp add: isStarted_def peers_def)

theorem peers_empty_when_stopped_witness:
  "\<not> isStarted host_stopped \<and> m_sessions host_stopped = [(node_A, 7)] \<and>
   session_store host_stopped 7 = Some session_A \<and> socket_is_open session_A \<and>
   peers host_stopped = []"
proof -
  have h: "\<not> isStarted host_stopped" by (simp add: isStarted_def host_stopped_def Host_def)
  from peers_empty_when_stopped [OF h] h show ?thesis
    by (simp add: host_stopped_def Host_def session_A_def)
qed

lemma peers_of_started_host: "peers (host_stopped\<lparr>m_run := True\<rparr>) = [m_info session_A]"
  by (simp add: peers_def host_stopped_def Host_def session_A_def)

subsection \<open>Keep-alive\<close>

lemma ping_loop_fields:
  "m_sessions (ping_loop h ss) = m_sessions h \<and> session_store (ping_loop h ss) = session_store h \<and>
   m_lastPing (ping_loop h ss) = m_lastPing h"
  by (induction ss arbitrary: h) (auto split: option.splits)

lemma disconnect_loop_fields:
  "m_sessions (disconnect_loop now h ss) = m_sessions h \<and>
   session_store (disconnect_loop now h ss) = session_store h \<and>
   m_lastPing (disconnect_loop now h ss) = m_lastPing h"
  by (induction ss arbitrary: h) (auto split: option.splits)

lemma disconnect_loop_keeps_calls:
  "set (calls h) \<subseteq> set (calls (disconnect_loop now h ss))"
proof (induction ss arbitrary: h)
  case Nil
  show ?case by simp
next
  case (Cons p rest)
  let ?h1 = "(case session_store h (snd p) of
          None \<Rightarrow> h
        | Some pp \<Rightarrow>
            if now - c_keepAliveTimeOut > m_lastPing h \<and> m_lastReceived pp < m_lastPing h
            then h\<lparr>calls := calls h @ [Disconnect (snd p) PingTimeout]\<rparr>
            else h)"
  have "set (calls h) \<subseteq> set (calls ?h1)" by (auto split: option.splits)
  also have "\<dots> \<subseteq> set (calls (disconnect_loop now ?h1 rest))" by (rule Cons.IH)
  finally show ?case by simp
qed

lemma disconnect_loop_late:
  assumes "now - c_keepAliveTimeOut > m_lastPing h"
    and "(k, w) \<in> set ss" and "session_store h w = Some s" and "m_lastReceived s < m_lastPing h"
  shows "Disconnect w PingTimeout \<in> set (calls (disconnect_loop now h ss))"
  using assms
proof (induction ss arbitrary: h)
  case Nil
  then show ?case by simp
next
  case (Cons p rest)
  let ?h1 = "(case session_store h (snd p) of
          None \<Rightarrow> h
        | Some pp \<Rightarrow>
            if now - c_keepAliveTimeOut > m_lastPing h \<and> m_lastReceived pp < m_lastPing h
            then h\<lparr>calls := calls h @ [Disconnect (snd p) PingTimeout]\<rparr>
            else h)"
  have step: "disconnect_loop now h (p # rest) = disconnect_loop now ?h1 rest" by simp
  have keep: "session_store ?h1 = session_store h" "m_lastPing ?h1 = m_lastPing h"
    by (auto split: option.splits)
  show ?case
  proof (cases "p = (k, w)")
    case True
    with Cons.prems have "Disconnect w PingTimeout \<in> set (calls ?h1)" by simp
    with disconnect_loop_keeps_calls [of ?h1 now rest] show ?thesis
      unfolding step by blast
  next
    case False
    with Cons.prems have "(k, w) \<in> set rest" by simp
    moreover from Cons.prems keep have "now - c_keepAliveTimeOut > m_lastPing ?h1"
      "session_store ?h1 w = Some s" "m_lastReceived s < m_lastPing ?h1" by simp_all
    ultimately have "Disconnect w PingTimeout \<in> set (calls (disconnect_loop now ?h1 rest))"
      by (intro Cons.IH)
    then show ?thesis unfolding step .
  qed
qed

text \<open>
  Claim C7, amended. At a scheduler tick at which strictly more than one second
  (\<open>c_keepAliveTimeOut\<close>) has passed since the last ping broadcast, every live session
  whose \<open>m_lastReceived\<close> is earlier than the last ping broadcast is disconnected with
  reason \<open>PingTimeout\<close>. The last ping broadcast is \<open>m_lastPing\<close> as
  \<open>keepAlivePeers\<close> leaves it in that tick, and the time passed is measured by the clock
  reading of \<open>disconnectLatePeers\<close>.
\<close>

theorem late_peers_disconnected:
  assumes "now3 - m_lastPing (keepAlivePeers now1 now2 h) > c_keepAliveTimeOut"
    and "(k, w) \<in> set (m_sessions h)" and "session_store h w = Some s"
    and "m_lastReceived s < m_lastPing (keepAlivePeers now1 now2 h)"
  shows "Disconnect w PingTimeout \<in> set (calls (run_keepalive now1 now2 now3 h))"
proof -
  define h1 where "h1 = keepAlivePeers now1 now2 h"
  have f: "m_sessions h1 = m_sessions h" "session_store h1 = session_store h"
    unfolding h1_def keepAlivePeers_def by (simp_all add: ping_loop_fields)
  from assms(1) have gt: "now3 - c_keepAliveTimeOut > m_lastPing h1" by (simp add: h1_def)
  from assms(4) have late: "m_lastReceived s < m_lastPing h1" by (simp add: h1_def)
  from gt have "disconnectLatePeers now3 h1 = disconnect_loop now3 h1 (m_sessions h1)"
    by (simp add: disconnectLatePeers_def)
  moreover have "Disconnect w PingTimeout \<in> set (calls (disconnect_loop now3 h1 (m_sessions h1)))"
    using gt late assms(2,3)
    by (intro disconnect_loop_late [where k = k and s = s]) (simp_all add: f)
  ultimately show ?thesis by (simp add: run_keepalive_def h1_def)
qed

theorem late_peers_disconnected_witness:
  "6000000001 - m_lastPing (keepAlivePeers 6000000001 6000000001 host_late) > c_keepAliveTimeOut \<and>
   (node_A, 7) \<in> set (m_sessions host_late) \<and> session_store host_late 7 = Some session_A \<and>
   m_lastReceived session_A < m_lastPing (keepAlivePeers 6000000001 6000000001 host_late) \<and>
   calls (run_keepalive 6000000001 6000000001 6000000001 host_late) = [Disconnect 7 PingTimeout]"
proof -
  have k: "keepAlivePeers 6000000001 6000000001 host_late = host_late"
    by (simp add: keepAlivePeers_def host_late_def Host_def c_keepAliveInterval_def)
  have a: "6000000001 - m_lastPing (keepAlivePeers 6000000001 6000000001 host_late) > c_keepAliveTimeOut"
    by (simp add: k) (simp add: host_late_def Host_def c_keepAliveTimeOut_def)
  have b: "(node_A, 7) \<in> set (m_sessions host_late)" by (simp add: host_late_def Host_def)
  have c: "session_store host_late 7 = Some session_A" by (simp add: host_late_def Host_def)
  have d: "m_lastReceived session_A < m_lastPing (keepAlivePeers 6000000001 6000000001 host_late)"
    by (simp add: k) (simp add: host_late_def Host_def session_A_def)
  have e: "calls (run_keepalive 6000000001 6000000001 6000000001 host_late) = [Disconnect 7 PingTimeout]"
    by (simp add: run_keepalive_def k)
       (simp add: disconnectLatePeers_def host_late_def Host_def session_A_def c_keepAliveTimeOut_def)
  from late_peers_disconnected [OF a b c d] a b c d e show ?thesis by simp
qed

text \<open>
  Claim C7 as stated fails when exactly one second has passed: the test inside the loop
  asks for strictly more, and the late session is kept.
\<close>

theorem late_peer_kept_at_one_second:
  "6000000000 - m_lastPing (keepAlivePeers 6000000000 6000000000 host_late) \<ge> c_keepAliveTimeOut \<and>
   (node_A, 7) \<in> set (m_sessions host_late) \<and> session_store host_late 7 = Some session_A \<and>
   m_lastReceived session_A < m_lastPing (keepAlivePeers 6000000000 6000000000 host_late) \<and>
   Disconnect 7 PingTimeout \<notin> set (calls (run_keepalive 6000000000 6000000000 6000000000 host_late))"
proof -
  have k: "keepAlivePeers 6000000000 6000000000 host_late = host_late"
    by (simp add: keepAlivePeers_def host_late_def Host_def c_keepAliveInterval_def)
  have e: "calls (run_keepalive 6000000000 6000000000 6000000000 host_late) = []"
    by (simp add: run_keepalive_def k)
       (simp add: disconnectLatePeers_def host_late_def Host_def session_A_def c_keepAliveTimeOut_def)
  show ?thesis
    by (simp add: k e) (simp add: host_late_def Host_def session_A_def c_keepAliveTimeOut_def)
qed

subsection \<open>Discovery events and the dialer\<close>

text \<open>
  Claim C2 at a failing input. A running host with no session at all, that wants one peer,
  receives \<open>NodeEntryAdded\<close> for a node its node table knows. The number of live sessions
  (0) is below the ideal peer count (1), yet the dialer is not invoked: \<open>peerCount\<close>
  returns the size of the peer table, which already holds the peer just created.
\<close>

theorem first_discovered_node_not_dialed:
  "isStarted host_discovering \<and> peers host_discovering = [] \<and> m_sessions host_discovering = [] \<and>
   m_idealPeerCount host_discovering = 1 \<and>
   onNodeTableEvent host_discovering node_A NodeEntryAdded =
     Inr (host_discovering\<lparr>m_peers := [(node_A, 1)],
            peer_store := [1 \<mapsto> peer_default\<lparr>peer_id := node_A, endpoint_tcp := ep_A\<rparr>],
            next_peer := 2\<rparr>) \<and>
   calls (host_discovering\<lparr>m_peers := [(node_A, 1)],
            peer_store := [1 \<mapsto> peer_default\<lparr>peer_id := node_A, endpoint_tcp := ep_A\<rparr>],
            next_peer := 2\<rparr>) = []"
  by (simp add: onNodeTableEvent_def host_discovering_def Host_def isStarted_def peers_def
      map_index_def null_peer_def peerCount_def)

lemma connect_cases:
  assumes "connect h p = Inr h'"
  shows "(m_pendingNodeConns h' = m_pendingNodeConns h \<and> pending_connects h' = pending_connects h) \<or>
         (p \<notin> m_pendingNodeConns h \<and> m_pendingNodeConns h' = insert p (m_pendingNodeConns h) \<and>
          pending_connects h' = pending_connects h @ [p] \<and> peer_store h p \<noteq> None)"
  using assms by (auto simp: connect_def Let_def split: if_splits option.splits)

lemma connect_peer_store: "connect h p = Inr h' \<Longrightarrow> peer_store h' = peer_store h"
  by (auto simp: connect_def Let_def split: if_splits option.splits)

lemma connect_handler_peer_store:
  "connect_handler h p ec now t = Inr (x, h') \<Longrightarrow> peer_store h q \<noteq> None \<Longrightarrow> peer_store h' q \<noteq> None"
  by (auto simp: connect_handler_def Let_def split: if_splits option.splits)

lemma connect_handler_total:
  "peer_store h p \<noteq> None \<Longrightarrow> \<exists>x h'. connect_handler h p ec now t = Inr (x, h')"
  by (auto simp: connect_handler_def Let_def)

lemma connect_handler_fields:
  assumes "connect_handler h p ec now t = Inr (x, h')"
  shows "pending_connects h' = remove1 p (pending_connects h) \<and>
         m_pendingNodeConns h' = (if x = Returned then m_pendingNodeConns h - {p} else m_pendingNodeConns h) \<and>
         (x = Threw \<longleftrightarrow> \<not> ec \<and> t)"
  using assms by (auto simp: connect_handler_def Let_def split: if_splits option.splits)

lemma reachable_single_flight:
  "reachable h \<Longrightarrow> distinct (pending_connects h) \<and> set (pending_connects h) \<subseteq> m_pendingNodeConns h"
proof (induction rule: reachable.induct)
  case (constructed h)
  then show ?case by simp
next
  case (connect_called h p h')
  from connect_cases [OF connect_called.hyps(2)] connect_called.IH show ?case by auto
next
  case (connect_completed h p ec now session_throws x h')
  from connect_handler_fields [OF connect_completed.hyps(3)]
  have l: "pending_connects h' = remove1 p (pending_connects h)"
    and m: "m_pendingNodeConns h - {p} \<subseteq> m_pendingNodeConns h'" by (auto split: if_splits)
  from connect_completed.IH have d: "distinct (pending_connects h)"
    and s: "set (pending_connects h) \<subseteq> m_pendingNodeConns h" by simp_all
  from d have "set (remove1 p (pending_connects h)) = set (pending_connects h) - {p}" by simp
  with s m l d show ?case by auto
next
  case (other_activity h h')
  then show ?case by simp
qed

lemma reachable_peers_alive:
  "reachable h \<Longrightarrow> q \<in> set (pending_connects h) \<Longrightarrow> peer_store h q \<noteq> None"
proof (induction rule: reachable.induct)
  case (constructed h)
  then show ?case by simp
next
  case (connect_called h p h')
  have ps: "peer_store h' = peer_store h" by (rule connect_peer_store [OF connect_called.hyps(2)])
  from connect_cases [OF connect_called.hyps(2)] consider
    (same) "pending_connects h' = pending_connects h"
    | (new) "pending_connects h' = pending_connects h @ [p]" "peer_store h p \<noteq> None" by blast
  then show ?case
  proof cases
    case same
    with connect_called.prems have "q \<in> set (pending_connects h)" by simp
    then have "peer_store h q \<noteq> None" by (rule connect_called.IH)
    then show ?thesis by (simp add: ps)
  next
    case new
    from connect_called.prems new(1) have "q \<in> set (pending_connects h) \<or> q = p" by auto
    then have "peer_store h q \<noteq> None"
    proof
      assume "q \<in> set (pending_connects h)"
      then show ?thesis by (rule connect_called.IH)
    next
      assume "q = p"
      with new(2) show ?thesis by simp
    qed
    then show ?thesis by (simp add: ps)
  qed
next
  case (connect_completed h p ec now session_throws x h')
  from connect_handler_fields [OF connect_completed.hyps(3)]
  have "pending_connects h' = remove1 p (pending_connects h)" by simp
  with connect_completed.prems have "q \<in> set (remove1 p (pending_connects h))" by simp
  then have "q \<in> set (pending_connects h)" using set_remove1_subset by fastforce
  then have "peer_store h q \<noteq> None" by (rule connect_completed.IH)
  with connect_completed.hyps(3) show ?case by (rule connect_handler_peer_store)
next
  case (other_activity h h')
  from other_activity.prems other_activity.hyps(3) have "q \<in> set (pending_connects h)" by simp
  with other_activity.hyps(4) show ?case by (simp add: list_all_iff)
qed


lemma distinct_count_list_le1: "distinct xs \<Longrightarrow> count_list xs p \<le> 1"
  by (induction xs) auto

lemma count_list_pos_mem: "count_list xs p = 1 \<Longrightarrow> p \<in> set xs"
  by (rule ccontr) simp

text \<open>
  What holds of the dialer in every state the host can reach: the I/O service holds at most
  one connect per \<open>Peer\<close> pointer, and a pointer it holds is in \<open>m_pendingNodeConns\<close>;
  \<open>connect\<close> on a pointer that is already in the set hands no connect to the I/O service;
  when it does hand one over, the pointer was not in the set before and is in it afterwards;
  the handler of a connect that the I/O service holds ends; when it returns the pointer is
  out of the set, and when an exception leaves it the set is as it was.
\<close>

lemma dialer_single_flight:
  assumes "reachable h"
  shows "count_list (pending_connects h) p \<le> 1 \<and>
         (count_list (pending_connects h) p = 1 \<longrightarrow> p \<in> m_pendingNodeConns h) \<and>
         (\<forall>h'. p \<in> m_pendingNodeConns h \<and> connect h p = Inr h' \<longrightarrow>
            pending_connects h' = pending_connects h \<and> m_pendingNodeConns h' = m_pendingNodeConns h) \<and>
         (\<forall>h'. connect h p = Inr h' \<and> pending_connects h' \<noteq> pending_connects h \<longrightarrow>
            p \<notin> m_pendingNodeConns h \<and> p \<in> m_pendingNodeConns h' \<and>
            pending_connects h' = pending_connects h @ [p]) \<and>
         (\<forall>ec now t. p \<in> set (pending_connects h) \<longrightarrow>
            (\<exists>x h'. connect_handler h p ec now t = Inr (x, h'))) \<and>
         (\<forall>ec now t h'. connect_handler h p ec now t = Inr (Returned, h') \<longrightarrow>
            p \<notin> m_pendingNodeConns h' \<and> p \<notin> set (pending_connects h')) \<and>
         (\<forall>ec now t h'. connect_handler h p ec now t = Inr (Threw, h') \<longrightarrow>
            m_pendingNodeConns h' = m_pendingNodeConns h \<and> p \<notin> set (pending_connects h'))"
proof -
  from reachable_single_flight [OF assms]
  have d: "distinct (pending_connects h)" and s: "set (pending_connects h) \<subseteq> m_pendingNodeConns h"
    by simp_all
  have c1: "count_list (pending_connects h) p \<le> 1"
    using d by (rule distinct_count_list_le1)
  have c2: "count_list (pending_connects h) p = 1 \<longrightarrow> p \<in> m_pendingNodeConns h"
    using s count_list_pos_mem [of "pending_connects h" p] by blast
  have c3: "\<forall>h'. p \<in> m_pendingNodeConns h \<and> connect h p = Inr h' \<longrightarrow>
            pending_connects h' = pending_connects h \<and> m_pendingNodeConns h' = m_pendingNodeConns h"
    using connect_cases by blast
  have c4: "\<forall>h'. connect h p = Inr h' \<and> pending_connects h' \<noteq> pending_connects h \<longrightarrow>
            p \<notin> m_pendingNodeConns h \<and> p \<in> m_pendingNodeConns h' \<and>
            pending_connects h' = pending_connects h @ [p]"
    using connect_cases by blast
  have c5: "\<forall>ec now t. p \<in> set (pending_connects h) \<longrightarrow>
            (\<exists>x h'. connect_handler h p ec now t = Inr (x, h'))"
  proof (intro allI impI)
    fix ec now t
    assume "p \<in> set (pending_connects h)"
    with assms have "peer_store h p \<noteq> None" by (rule reachable_peers_alive)
    then show "\<exists>x h'. connect_handler h p ec now t = Inr (x, h')" by (rule connect_handler_total)
  qed
  have c6: "\<forall>ec now t h'. connect_handler h p ec now t = Inr (Returned, h') \<longrightarrow>
            p \<notin> m_pendingNodeConns h' \<and> p \<notin> set (pending_connects h')"
  proof (intro allI impI)
    fix ec now t h'
    assume "connect_handler h p ec now t = Inr (Returned, h')"
    from connect_handler_fields [OF this] d show
      "p \<notin> m_pendingNodeConns h' \<and> p \<notin> set (pending_connects h')" by simp
  qed
  have c7: "\<forall>ec now t h'. connect_handler h p ec now t = Inr (Threw, h') \<longrightarrow>
            m_pendingNodeConns h' = m_pendingNodeConns h \<and> p \<notin> set (pending_connects h')"
  proof (intro allI impI)
    fix ec now t h'
    assume "connect_handler h p ec now t = Inr (Threw, h')"
    from connect_handler_fields [OF this] d show
      "m_pendingNodeConns h' = m_pendingNodeConns h \<and> p \<notin> set (pending_connects h')" by simp
  qed
  show ?thesis
    apply (intro conjI)
          apply (rule c1)
         apply (rule c2)
        apply (rule c3)
       apply (rule c4)
      apply (rule c5)
     apply (rule c6)
    apply (rule c7)
    done
qed

lemma connect_host_discovered: "connect host_discovered 1 = Inr host_dialing"
  by (simp add: connect_def host_dialing_def host_discovered_def host_discovering_def Host_def
      havePeerSession_def Let_def)

lemma reachable_host_dialing: "reachable host_dialing"
proof -
  have "reachable host_discovered"
    by (rule reachable.constructed)
       (simp_all add: host_discovered_def host_discovering_def Host_def)
  then show ?thesis using connect_host_discovered by (rule reachable.connect_called)
qed

text \<open>
  Claim C6 at a failing input. The I/O service holds the connect of peer 1, whose pointer
  is in \<open>m_pendingNodeConns\<close>. The connect succeeds and the construction or the start of
  the session throws: the exception leaves the handler before the erase, so no connect of
  the peer is in flight any more and its pointer is still in the set, and a later
  \<open>connect\<close> to the peer returns without dialing. The handler of a refused connect does
  remove the pointer.
\<close>

theorem connect_pointer_left_pending:
  "reachable host_dialing \<and> pending_connects host_dialing = [1] \<and>
   1 \<in> m_pendingNodeConns host_dialing \<and>
   connect_handler host_dialing 1 False 99 True = Inr (Threw, host_escaped) \<and>
   pending_connects host_escaped = [] \<and>
   1 \<in> m_pendingNodeConns host_escaped \<and>
   connect host_escaped 1 = Inr (host_escaped\<lparr>calls := calls host_escaped @ [Connect 1]\<rparr>) \<and>
   connect_handler host_dialing 1 True 99 False = Inr (Returned, host_refused) \<and>
   m_pendingNodeConns host_refused = {}"
proof -
  have r: "reachable host_dialing" by (rule reachable_host_dialing)
  have p: "pending_connects host_dialing = [1]" "1 \<in> m_pendingNodeConns host_dialing"
    by (simp_all add: host_dialing_def)
  have t: "connect_handler host_dialing 1 False 99 True = Inr (Threw, host_escaped)"
    by (simp add: connect_handler_def host_dialing_def host_escaped_def host_discovered_def
        host_discovering_def Host_def Let_def)
  have e: "pending_connects host_escaped = []" "1 \<in> m_pendingNodeConns host_escaped"
    by (simp_all add: host_escaped_def host_discovered_def host_discovering_def Host_def)
  have c: "connect host_escaped 1 = Inr (host_escaped\<lparr>calls := calls host_escaped @ [Connect 1]\<rparr>)"
    by (simp add: connect_def host_escaped_def host_discovered_def host_discovering_def Host_def
        havePeerSession_def Let_def)
  have k: "connect_handler host_dialing 1 True 99 False = Inr (Returned, host_refused)"
    by (simp add: connect_handler_def host_dialing_def host_refused_def host_discovered_def
        host_discovering_def Host_def Let_def)
  have f: "m_pendingNodeConns host_refused = {}"
    by (simp add: host_refused_def host_discovered_def host_discovering_def Host_def)
  show ?thesis
    apply (intro conjI)
            apply (rule r)
           apply (rule p(1))
          apply (rule p(2))
         apply (rule t)
        apply (rule e(1))
       apply (rule e(2))
      apply (rule c)
     apply (rule k)
    apply (rule f)
    done
qed

subsection \<open>Endpoint resolution, persistence and identity\<close>

text \<open>
  Claim C3 at a failing input. With local networking enabled, no advertised address and
  the interfaces 10.0.0.5 and 52.1.2.3, both addresses are eligible and 52.1.2.3 is the
  first (and only) one that is IPv4 and public. The loop finds it, but publishes
  \<open>*m_peerAddresses.begin()\<close>, the private 10.0.0.5, with the listen port.
\<close>

theorem private_address_published:
  "rfc1918_private (V4 0x0A000005) \<and> \<not> rfc1918_private (V4 0x34010203) \<and>
   determinePublic rfc1918_private loopback from_string_none traverseNAT_none host_two_interfaces [] False =
     Inr (host_two_interfaces\<lparr>m_peerAddresses := [V4 0x0A000005, V4 0x34010203],
            m_tcpPublic := \<lparr>ep_address = V4 0x0A000005, ep_port = 30303\<rparr>\<rparr>)"
proof -
  have a: "rfc1918_private (V4 0x0A000005)" by (simp add: rfc1918_private_def)
  have b: "\<not> rfc1918_private (V4 0x34010203)" by (simp add: rfc1918_private_def)
  have l: "\<not> loopback (V4 0x0A000005)" "\<not> loopback (V4 0x34010203)" "\<not> loopback (V4 0)"
    by (simp_all add: loopback_def)
  have z: "\<not> rfc1918_private (V4 0)" by (simp add: rfc1918_private_def)
  have lt: "address_less (V4 0x34010203) (V4 0x0A000005) = False" by (simp add: address_less_def)
  show ?thesis
    by (simp add: a b l z lt determinePublic_def host_two_interfaces_def Host_def Let_def
        address_default_def is_unspecified_def is_v4_def traverseNAT_none_def)
qed

lemma wrap64_id: "- (2 ^ 63) \<le> x \<Longrightarrow> x < 2 ^ 63 \<Longrightarrow> wrap64 x = x"
  by (simp add: wrap64_def)

lemma save_selected_in_range:
  assumes "- (2 ^ 63) \<le> now - lastConnected n" and "now - lastConnected n < 2 ^ 63"
  shows "save_selected isP self now n = selection_rule isP self now n"
  by (simp add: save_selected_def selection_rule_def wrap64_id [OF assms])

lemma saveNodes_loop_eq:
  assumes "map (\<lambda>i. peer_store h (snd i)) is = map Some ps"
  shows "saveNodes_loop isP clock h k is acc =
           Inr (fst acc @ map (peer_entry \<circ> snd)
                  (filter (\<lambda>(j, n). save_selected isP (kp_pub (m_alias h)) (clock j) n) (enumerate k ps)),
                snd acc + int (length
                  (filter (\<lambda>(j, n). save_selected isP (kp_pub (m_alias h)) (clock j) n) (enumerate k ps))))"
  using assms
proof (induction "is" arbitrary: k acc ps)
  case Nil
  then show ?case by simp
next
  case (Cons i rest)
  from Cons.prems obtain n ps' where ps: "ps = n # ps'" "peer_store h (snd i) = Some n"
    "map (\<lambda>i. peer_store h (snd i)) rest = map Some ps'" by (cases ps) auto
  show ?case by (simp add: ps Cons.IH [OF ps(3)])
qed

lemma peer_entry_id: "peer_entry n = peer_entry n' \<Longrightarrow> peer_id n = peer_id n'"
  by (simp add: peer_entry_def)

lemma restore_loop_result: "restore_loop h xs = Inr h' \<Longrightarrow> h' = h"
  by (induction xs) (auto simp: and_then_def split: sum.splits)

lemma restore_loop_legacy_result: "restore_loop_legacy h xs = Inr h' \<Longrightarrow> h' = h"
  by (induction xs) (auto simp: and_then_def split: sum.splits if_splits)

lemma restoreNodes_keeps_peers:
  assumes "restoreNodes toPublic h r = Inr h'"
  shows "m_peers h' = m_peers h \<and> peer_store h' = peer_store h"
  using assms
  by (auto simp: restoreNodes_def and_then_def split: if_splits sum.splits
      dest!: restore_loop_result restore_loop_legacy_result)

lemma sel_A: "save_selected rfc1918_private (kp_pub key_H) now_S5 peer_A"
  by (simp add: save_selected_def wrap64_def rfc1918_private_def now_S5_def peer_A_def ep_A_def
      key_H_def node_A_def)

lemma sel_B: "\<not> save_selected rfc1918_private (kp_pub key_H) now_S5 peer_B"
  by (simp add: save_selected_def wrap64_def now_S5_def peer_B_def)

lemma sel_C: "\<not> save_selected rfc1918_private (kp_pub key_H) now_S5 peer_C"
  by (simp add: save_selected_def rfc1918_private_def peer_C_def)

lemma save_S5: "saveNodes rfc1918_private clock_S5 host_S5 = Inr saved_S5"
  by (simp add: saveNodes_def and_then_def host_S5_def Host_def clock_S5_def sel_A sel_B sel_C saved_S5_def)

lemma toBigEndian_0: "toBigEndian 0 = []"
  by (simp add: toBigEndian.simps)

lemma toBigEndian_byte: "0 < n \<Longrightarrow> n < 256 \<Longrightarrow> toBigEndian n = [word_of_nat n]"
  by (subst toBigEndian.simps) (simp add: toBigEndian_0)

lemma toBigEndian_short:
  "256 \<le> n \<Longrightarrow> n < 65536 \<Longrightarrow> toBigEndian n = [word_of_nat (n div 256), word_of_nat (n mod 256)]"
  by (subst toBigEndian.simps) (simp add: toBigEndian_byte less_mult_imp_div_less)

lemma to_bytes_A: "to_bytes (V4 0x34010203) = [0x34, 1, 2, 3]"
  by code_simp

lemma array_A:
  "toArray 4 (RLPList [rlp_unsigned 52, rlp_unsigned 1, rlp_unsigned 2, rlp_unsigned 3]) = Inr [52, 1, 2, 3]"
  by (simp add: toArray_def rlp_unsigned_def toInt_def isInt_def and_then_def
      toBigEndian_byte fromBigEndian_def)

lemma port_A: "toInt 2 (rlp_unsigned 30303) = Inr 30303"
  by (simp add: rlp_unsigned_def toInt_def isInt_def toBigEndian_short fromBigEndian_def)

lemma entry_endpoint_A: "entry_endpoint (peer_entry peer_A) = Inr ep_A"
  by (simp add: entry_endpoint_def peer_entry_def peer_A_def ep_A_def rlp_at_def to_bytes_A
      array_A port_A and_then_def itemCount_def rlp_array_def address_of_bytes_def fromBigEndian_def)

lemma restore_S5:
  "restoreNodes toPublic (Host [] False key_fresh) saved_S5 =
     Inr ((Host [] False key_fresh)\<lparr>m_alias := \<lparr>kp_secret = kp_secret key_H, kp_pub = toPublic (kp_secret key_H)\<rparr>\<rparr>)"
proof -
  have v: "toInt 4 (rlp_unsigned 0) = Inr 0" "isInt (rlp_unsigned 0)"
    by (simp_all add: rlp_unsigned_def toInt_def isInt_def toBigEndian_0 fromBigEndian_def)
  have s: "toHash 32 (RLPData (kp_secret key_H)) = Inr (kp_secret key_H)"
    by (simp add: toHash_def key_H_def)
  have i: "toHash 64 (rlp_at (peer_entry peer_A) 2) = Inr node_A"
    by (simp add: toHash_def peer_entry_def rlp_at_def peer_A_def node_A_def)
  have l: "restore_loop h [peer_entry peer_A] = Inr h" for h
    by (simp add: entry_endpoint_A i and_then_def)
  have r: "itemCount saved_S5 = 3" "rlp_at saved_S5 0 = rlp_unsigned 0"
    "rlp_at saved_S5 1 = RLPData (kp_secret key_H)" "items (rlp_at saved_S5 2) = [peer_entry peer_A]"
    by (simp_all add: saved_S5_def itemCount_def rlp_at_def items_def)
  show ?thesis
    unfolding restoreNodes_def r by (simp add: v s l and_then_def del: restore_loop.simps)
qed

lemma map_rng_ones: "map rng_ones [0..<32] = replicate 32 1"
  by (simp add: map_replicate_const rng_ones_def [abs_def])

lemma map_rng_twos: "map rng_twos [0..<32] = replicate 32 2"
  by (simp add: map_replicate_const rng_twos_def [abs_def])

text \<open>
  Claim C4, amended. If the identity file \<open><data_dir>/host\<close> is absent or does not hold
  exactly 32 bytes, \<open>getHostIdentifier\<close> generates a fresh 32-byte secret and returns its
  key pair (or throws \<open>InvalidState\<close> when the 32 bytes are all zero); it does not write
  the file, which is left as it was.
\<close>

theorem getHostIdentifier_generates:
  assumes "length (contents fs (dataDir @ ''/host'')) \<noteq> 32"
  shows "getHostIdentifier dataDir d toPublic fs =
           (if map d [0..<32] = replicate 32 0 then Inl InvalidState
            else Inr (\<lparr>kp_secret = map d [0..<32], kp_pub = toPublic (map d [0..<32])\<rparr>, fs)) \<and>
         length (map d [0..<32]) = 32"
  using assms by (simp add: getHostIdentifier_def Let_def)

theorem getHostIdentifier_generates_witness:
  "length (contents fs_empty (''/home/user/.ethereum'' @ ''/host'')) \<noteq> 32 \<and>
   getHostIdentifier ''/home/user/.ethereum'' rng_ones toPublic_standin fs_empty =
     Inr (\<lparr>kp_secret = replicate 32 1, kp_pub = toPublic_standin (replicate 32 1)\<rparr>, fs_empty)"
proof -
  have h: "length (contents fs_empty (''/home/user/.ethereum'' @ ''/host'')) \<noteq> 32"
    by (simp add: contents_def fs_empty_def)
  from getHostIdentifier_generates [OF h, of rng_ones toPublic_standin] h show ?thesis
    by (simp add: map_rng_ones)
qed

text \<open>
  Claim C4 as stated fails: with no identity file, the call returns a generated secret, the
  file is still absent afterwards, and a second load from the same file, where the random
  engine delivers other bytes, yields another identity.
\<close>

theorem identity_not_persisted:
  "length (contents fs_empty ''/home/user/.ethereum/host'') \<noteq> 32 \<and>
   getHostIdentifier ''/home/user/.ethereum'' rng_ones toPublic_standin fs_empty =
     Inr (\<lparr>kp_secret = replicate 32 1, kp_pub = toPublic_standin (replicate 32 1)\<rparr>, fs_empty) \<and>
   contents fs_empty ''/home/user/.ethereum/host'' \<noteq> replicate 32 1 \<and>
   getHostIdentifier ''/home/user/.ethereum'' rng_twos toPublic_standin fs_empty =
     Inr (\<lparr>kp_secret = replicate 32 2, kp_pub = toPublic_standin (replicate 32 2)\<rparr>, fs_empty) \<and>
   replicate 32 (1 :: byte) \<noteq> replicate 32 2"
  by (simp add: getHostIdentifier_def Let_def contents_def fs_empty_def map_rng_ones map_rng_twos)

lemma save_selected_wraps_around:
  "save_selected rfc1918_private (kp_pub key_H) now_S5 (peer_A\<lparr>lastConnected := - (2 ^ 63)\<rparr>)"
  by (simp add: save_selected_def wrap64_def rfc1918_private_def now_S5_def peer_A_def ep_A_def
      key_H_def node_A_def)

text \<open>
  Claim C5. Let \<open>ps\<close> be the peers of the peer table in iteration order (every pointer of
  the table is valid), and let no difference \<open>now - lastConnected\<close> leave the 64-bit range
  of a duration (the subtraction would overflow). Then \<open>saveNodes\<close> returns the list
  \<open>[0, secret, entries]\<close> where \<open>entries\<close> holds, in order, the entry of exactly those
  peers for which, at the clock reading of their iteration, \<open>now - lastConnected\<close> is under
  48 hours, the TCP port is strictly between 0 and 32768, the node id differs from the
  host's own id, and the endpoint address is not private. When the node ids of the table
  are distinct, the entry of a peer is among the entries if and only if the four conditions
  hold for it.
\<close>

theorem saveNodes_selects:
  assumes valid: "map (\<lambda>i. peer_store h (snd i)) (m_peers h) = map Some ps"
    and range: "\<forall>k<length ps. - (2 ^ 63) \<le> clock k - lastConnected (ps ! k) \<and>
                               clock k - lastConnected (ps ! k) < 2 ^ 63"
  shows "\<exists>entries.
           saveNodes isPrivateAddress clock h =
             Inr (RLPList [rlp_unsigned 0, RLPData (kp_secret (m_alias h)), RLPList entries]) \<and>
           entries = map (peer_entry \<circ> snd)
             (filter (\<lambda>(k, n). selection_rule isPrivateAddress (kp_pub (m_alias h)) (clock k) n)
                (enumerate 0 ps)) \<and>
           (distinct (map peer_id ps) \<longrightarrow>
              (\<forall>k<length ps. peer_entry (ps ! k) \<in> set entries \<longleftrightarrow>
                 selection_rule isPrivateAddress (kp_pub (m_alias h)) (clock k) (ps ! k)))"
proof -
  let ?code = "\<lambda>(k, n). save_selected isPrivateAddress (kp_pub (m_alias h)) (clock k) n"
  let ?rule = "\<lambda>(k, n). selection_rule isPrivateAddress (kp_pub (m_alias h)) (clock k) n"
  let ?entries = "map (peer_entry \<circ> snd) (filter ?rule (enumerate 0 ps))"
  have same: "?code x = ?rule x" if "x \<in> set (enumerate 0 ps)" for x
  proof -
    obtain k n where x: "x = (k, n)" by (cases x)
    from that x have k: "k < length ps" and n: "n = ps ! k" by (auto simp: in_set_enumerate_eq)
    from range k n have "- (2 ^ 63) \<le> clock k - lastConnected n" "clock k - lastConnected n < 2 ^ 63"
      by simp_all
    then show ?thesis unfolding x by (simp add: save_selected_in_range)
  qed
  have "filter ?code (enumerate 0 ps) = filter ?rule (enumerate 0 ps)"
    by (rule filter_cong [OF refl same])
  then have out: "saveNodes isPrivateAddress clock h =
      Inr (RLPList [rlp_unsigned 0, RLPData (kp_secret (m_alias h)), RLPList ?entries])"
    by (simp add: saveNodes_def saveNodes_loop_eq [OF valid] and_then_def)
  have mem: "peer_entry (ps ! k) \<in> set ?entries \<longleftrightarrow> ?rule (k, ps ! k)"
    if d: "distinct (map peer_id ps)" and k: "k < length ps" for k
  proof
    assume "peer_entry (ps ! k) \<in> set ?entries"
    then obtain j n where jn: "(j, n) \<in> set (enumerate 0 ps)" "?rule (j, n)"
      "peer_entry n = peer_entry (ps ! k)" by auto
    from jn(1) have j: "j < length ps" and n: "n = ps ! j" by (auto simp: in_set_enumerate_eq)
    from peer_entry_id [OF jn(3)] n have "peer_id (ps ! j) = peer_id (ps ! k)" by simp
    moreover from nth_eq_iff_index_eq [OF d, of j k] j k
    have "(peer_id (ps ! j) = peer_id (ps ! k)) = (j = k)" by simp
    ultimately have "j = k" by blast
    with jn(2) n show "?rule (k, ps ! k)" by simp
  next
    assume r: "?rule (k, ps ! k)"
    from k have "(k, ps ! k) \<in> set (enumerate 0 ps)" by (simp add: in_set_enumerate_eq)
    with r have "(k, ps ! k) \<in> set (filter ?rule (enumerate 0 ps))" by simp
    then have "(peer_entry \<circ> snd) (k, ps ! k) \<in> set ?entries" by (simp only: set_map) (rule imageI)
    then show "peer_entry (ps ! k) \<in> set ?entries" by simp
  qed
  from out mem show ?thesis by auto
qed

theorem saveNodes_selects_witness:
  "map (\<lambda>i. peer_store host_S5 (snd i)) (m_peers host_S5) = map Some [peer_A, peer_B, peer_C] \<and>
   - (2 ^ 63) \<le> clock_S5 0 - lastConnected peer_A \<and> clock_S5 0 - lastConnected peer_A < 2 ^ 63 \<and>
   - (2 ^ 63) \<le> clock_S5 1 - lastConnected peer_B \<and> clock_S5 1 - lastConnected peer_B < 2 ^ 63 \<and>
   - (2 ^ 63) \<le> clock_S5 2 - lastConnected peer_C \<and> clock_S5 2 - lastConnected peer_C < 2 ^ 63 \<and>
   distinct (map peer_id [peer_A, peer_B, peer_C]) \<and>
   selection_rule rfc1918_private (kp_pub (m_alias host_S5)) (clock_S5 0) peer_A \<and>
   \<not> selection_rule rfc1918_private (kp_pub (m_alias host_S5)) (clock_S5 1) peer_B \<and>
   \<not> selection_rule rfc1918_private (kp_pub (m_alias host_S5)) (clock_S5 2) peer_C \<and>
   saveNodes rfc1918_private clock_S5 host_S5 =
     Inr (RLPList [rlp_unsigned 0, RLPData (kp_secret (m_alias host_S5)), RLPList [peer_entry peer_A]]) \<and>
   peer_entry peer_A \<in> set [peer_entry peer_A] \<and>
   peer_entry peer_B \<notin> set [peer_entry peer_A] \<and>
   peer_entry peer_C \<notin> set [peer_entry peer_A]"
proof -
  let ?ps = "[peer_A, peer_B, peer_C]"
  have v: "map (\<lambda>i. peer_store host_S5 (snd i)) (m_peers host_S5) = map Some ?ps"
    by (simp add: host_S5_def Host_def)
  have r0: "- (2 ^ 63) \<le> clock_S5 0 - lastConnected peer_A \<and> clock_S5 0 - lastConnected peer_A < 2 ^ 63"
    by (simp add: clock_S5_def now_S5_def peer_A_def)
  have r1: "- (2 ^ 63) \<le> clock_S5 1 - lastConnected peer_B \<and> clock_S5 1 - lastConnected peer_B < 2 ^ 63"
    by (simp add: clock_S5_def now_S5_def peer_B_def)
  have r2: "- (2 ^ 63) \<le> clock_S5 2 - lastConnected peer_C \<and> clock_S5 2 - lastConnected peer_C < 2 ^ 63"
    by (simp add: clock_S5_def now_S5_def peer_C_def)
  have r: "\<forall>k<length ?ps. - (2 ^ 63) \<le> clock_S5 k - lastConnected (?ps ! k) \<and>
                               clock_S5 k - lastConnected (?ps ! k) < 2 ^ 63"
  proof (intro allI impI)
    fix k assume "k < length ?ps"
    then consider "k = 0" | "k = 1" | "k = 2" by (auto simp: less_Suc_eq numeral_eq_Suc)
    then show "- (2 ^ 63) \<le> clock_S5 k - lastConnected (?ps ! k) \<and>
               clock_S5 k - lastConnected (?ps ! k) < 2 ^ 63"
      using r0 r1 r2 by cases simp_all
  qed
  have d: "distinct (map peer_id ?ps)"
    by (simp add: peer_A_def peer_B_def peer_C_def node_A_def node_B_def node_C_def)
  have pub: "kp_pub (m_alias host_S5) = kp_pub key_H" by (simp add: host_S5_def Host_def)
  have sA: "selection_rule rfc1918_private (kp_pub (m_alias host_S5)) (clock_S5 0) peer_A"
    by (simp add: pub selection_rule_def rfc1918_private_def clock_S5_def now_S5_def peer_A_def
        ep_A_def key_H_def node_A_def)
  have sB: "\<not> selection_rule rfc1918_private (kp_pub (m_alias host_S5)) (clock_S5 1) peer_B"
    by (simp add: selection_rule_def clock_S5_def now_S5_def peer_B_def)
  have sC: "\<not> selection_rule rfc1918_private (kp_pub (m_alias host_S5)) (clock_S5 2) peer_C"
    by (simp add: selection_rule_def rfc1918_private_def peer_C_def)
  from saveNodes_selects [OF v r, of rfc1918_private] obtain entries where
    e1: "saveNodes rfc1918_private clock_S5 host_S5 =
           Inr (RLPList [rlp_unsigned 0, RLPData (kp_secret (m_alias host_S5)), RLPList entries])"
    and e2: "entries = map (peer_entry \<circ> snd)
             (filter (\<lambda>(k, n). selection_rule rfc1918_private (kp_pub (m_alias host_S5)) (clock_S5 k) n)
                (enumerate 0 ?ps))"
    and e3: "distinct (map peer_id ?ps) \<longrightarrow>
              (\<forall>k<length ?ps. peer_entry (?ps ! k) \<in> set entries \<longleftrightarrow>
                 selection_rule rfc1918_private (kp_pub (m_alias host_S5)) (clock_S5 k) (?ps ! k))"
    by blast
  have sB': "\<not> selection_rule rfc1918_private (kp_pub (m_alias host_S5)) (clock_S5 (Suc 0)) peer_B"
    using sB by (simp add: clock_S5_def)
  have sC': "\<not> selection_rule rfc1918_private (kp_pub (m_alias host_S5)) (clock_S5 (Suc (Suc 0))) peer_C"
    using sC by (simp add: clock_S5_def)
  have en: "entries = [peer_entry peer_A]" unfolding e2 by (simp add: sA sB' sC')
  from e3 d have m: "\<forall>k<length ?ps. peer_entry (?ps ! k) \<in> set entries \<longleftrightarrow>
                 selection_rule rfc1918_private (kp_pub (m_alias host_S5)) (clock_S5 k) (?ps ! k)"
    by blast
  from m [rule_format, of 0] sA have mA: "peer_entry peer_A \<in> set [peer_entry peer_A]"
    by (simp add: en)
  from m [rule_format, of 1] sB have mB: "peer_entry peer_B \<notin> set [peer_entry peer_A]"
    by (simp add: en)
  from m [rule_format, of 2] sC have mC: "peer_entry peer_C \<notin> set [peer_entry peer_A]"
    by (simp add: en)
  have s: "saveNodes rfc1918_private clock_S5 host_S5 =
     Inr (RLPList [rlp_unsigned 0, RLPData (kp_secret (m_alias host_S5)), RLPList [peer_entry peer_A]])"
    using e1 by (simp only: en)
  show ?thesis
    apply (intro conjI)
    using v apply assumption
    using r0 apply blast
    using r0 apply blast
    using r1 apply blast
    using r1 apply blast
    using r2 apply blast
    using r2 apply blast
    using d apply assumption
    using sA apply assumption
    using sB apply assumption
    using sC apply assumption
    using s apply assumption
    using mA apply assumption
    using mB apply assumption
    using mC apply assumption
    done
qed

text \<open>
  Claim C1 at a failing input. The idle host of scenario S5 saves the list with the entry
  of \<open>peer_A\<close>, which is within the 48 hours and passes the selection rules. Restoring
  that list into a fresh host takes over the saved secret, so the identity is preserved,
  but leaves the peer table empty: no peer is recovered.
\<close>

theorem restoreNodes_restores_no_peer:
  "saveNodes rfc1918_private clock_S5 host_S5 = Inr saved_S5 \<and>
   saved_S5 = RLPList [rlp_unsigned 0, RLPData (kp_secret key_H), RLPList [peer_entry peer_A]] \<and>
   restoreNodes toPublic (Host [] False key_fresh) saved_S5 =
     Inr ((Host [] False key_fresh)\<lparr>m_alias := \<lparr>kp_secret = kp_secret key_H, kp_pub = toPublic (kp_secret key_H)\<rparr>\<rparr>) \<and>
   m_peers ((Host [] False key_fresh)\<lparr>m_alias := \<lparr>kp_secret = kp_secret key_H, kp_pub = toPublic (kp_secret key_H)\<rparr>\<rparr>) = [] \<and>
   peer_store ((Host [] False key_fresh)\<lparr>m_alias := \<lparr>kp_secret = kp_secret key_H, kp_pub = toPublic (kp_secret key_H)\<rparr>\<rparr>) node = None"
  using save_S5 restore_S5 by (simp add: saved_S5_def Host_def)

end
